theory Spec2Isabelle
  imports Complex_Main
begin

section \<open>Hexagonal binning on a web map: \<^verbatim>\<open>plotly/express/_hexbin_mapbox.py\<close>\<close>

text \<open>
  The module works on \<^verbatim>\<open>numpy\<close> arrays of 64-bit floats. In this development a float
  is a real number: rounding error, infinities and NaN operands are outside the model, so
  every statement below is about the arithmetic the code writes down, carried out exactly.
  Where the code can store NaN on purpose (a dropped lattice cell, the result of an
  aggregation function) the value is a \<^typ>\<open>real option\<close> with \<^term>\<open>None\<close> for NaN, and the
  \<^verbatim>\<open>min_count\<close> argument, which the caller sets to \<^verbatim>\<open>-np.inf\<close>, has a type of
  its own. The two arrays \<^verbatim>\<open>lat\<close> and \<^verbatim>\<open>lon\<close> have equal length and are
  kept as one list of pairs \<open>(lat, lon)\<close>. Exceptions are values of type \<open>error\<close>.
\<close>

subsection \<open>The projection\<close>

text \<open>
  \<^verbatim>\<open>_project_latlon_to_wgs84(lat, lon)\<close>, source lines 10 to 16. The definition
  stands for the code only where the code's result is finite: at a latitude of 90 or -90
  degrees, and in floats already within about \<open>10\<^sup>-\<^sup>8\<close> degrees of them, the sine is
  1 and \<^verbatim>\<open>np.arctanh\<close> returns an infinity, while \<^term>\<open>artanh\<close> is a total
  function on the reals.
\<close>

definition project_latlon_to_wgs84 :: "real \<Rightarrow> real \<Rightarrow> real \<times> real" where
  "project_latlon_to_wgs84 lat lon =
     (let x = lon * pi / 180;
          y = artanh (sin (lat * pi / 180))
      in (x, y))"

text \<open>\<^verbatim>\<open>_project_wgs84_to_latlon(x, y)\<close>, source lines 18 to 24.\<close>

definition project_wgs84_to_latlon :: "real \<Rightarrow> real \<Rightarrow> real \<times> real" where
  "project_wgs84_to_latlon x y =
     (let lon = x * 180 / pi;
          lat = (2 * arctan (exp y) - pi / 2) * 180 / pi
      in (lat, lon))"

subsection \<open>The zoom level\<close>

text \<open>
  \<^verbatim>\<open>_getBoundsZoomLevel\<close>, source lines 35 to 61. The dictionary \<^verbatim>\<open>mapDim\<close> is a
  record; the two local functions \<^verbatim>\<open>latRad\<close> and \<^verbatim>\<open>zoom\<close> are definitions of
  their own. \<^verbatim>\<open>np.log\<close> is the natural logarithm.
\<close>

record mapDim =
  height :: real
  width :: real

definition latRad :: "real \<Rightarrow> real" where
  "latRad lat =
     (let sn = sin (lat * pi / 180);
          radX2 = ln ((1 + sn) / (1 - sn)) / 2
      in max (min radX2 pi) (- pi) / 2)"

definition zoom :: "real \<Rightarrow> real \<Rightarrow> real \<Rightarrow> real" where
  "zoom mapPx worldPx fraction = 0.95 * ln (mapPx / worldPx / fraction) / ln 2"

definition latFraction :: "real \<Rightarrow> real \<Rightarrow> real" where
  "latFraction lat_min lat_max = (latRad lat_max - latRad lat_min) / pi"

definition lngFraction :: "real \<Rightarrow> real \<Rightarrow> real" where
  "lngFraction lon_min lon_max =
     (let lngDiff = lon_max - lon_min
      in (if lngDiff < 0 then lngDiff + 360 else lngDiff) / 360)"

definition getBoundsZoomLevel :: "real \<Rightarrow> real \<Rightarrow> real \<Rightarrow> real \<Rightarrow> mapDim \<Rightarrow> real" where
  "getBoundsZoomLevel lon_min lon_max lat_min lat_max dims =
     (let scale = 2;
          WORLD_DIM = \<lparr>height = 256 * scale, width = 256 * scale\<rparr>;
          ZOOM_MAX = 18;
          latZoom = zoom (height dims) (height WORLD_DIM) (latFraction lat_min lat_max);
          lngZoom = zoom (width dims) (width WORLD_DIM) (lngFraction lon_min lon_max)
      in min (min latZoom lngZoom) ZOOM_MAX)"

subsection \<open>Values of the aggregator\<close>

text \<open>
  The exceptions \<^verbatim>\<open>_compute_hexbin\<close> can raise: \<^verbatim>\<open>ValueError\<close> comes from
  \<^verbatim>\<open>numpy\<close> (a reduction over an empty array, an array with a negative dimension),
  \<^verbatim>\<open>IndexError\<close> from an index past the end of a list or array.
\<close>

datatype error = ValueError | IndexError

text \<open>
  The argument \<^verbatim>\<open>min_count\<close> is \<^verbatim>\<open>None\<close> or a float, and the caller passes
  \<^verbatim>\<open>-np.inf\<close>; \<open>lt_float v m\<close> is the comparison \<^verbatim>\<open>v < m\<close> and \<open>gt_float v m\<close>
  is \<^verbatim>\<open>v > m\<close> of a finite \<open>v\<close> with such a float (every comparison with NaN is false).
\<close>

datatype npfloat = NegInf | Fin real | PosInf | NaN

fun lt_float :: "real \<Rightarrow> npfloat \<Rightarrow> bool" where
  "lt_float v NegInf = False"
| "lt_float v (Fin m) = (v < m)"
| "lt_float v PosInf = True"
| "lt_float v NaN = False"

fun gt_float :: "real \<Rightarrow> npfloat \<Rightarrow> bool" where
  "gt_float v NegInf = True"
| "gt_float v (Fin m) = (m < v)"
| "gt_float v PosInf = False"
| "gt_float v NaN = False"

text \<open>
  \<^verbatim>\<open>np.round(v).astype(int)\<close> rounds to the nearest integer and a half to the even
  neighbour; \<^verbatim>\<open>np.floor(v).astype(int)\<close> is \<^term>\<open>floor\<close>.
\<close>

definition np_round :: "real \<Rightarrow> int" where
  "np_round v =
     (let f = \<lfloor>v\<rfloor>; r = v - of_int f
      in if r < 1 / 2 then f else if 1 / 2 < r then f + 1 else if even f then f else f + 1)"

subsection \<open>The lattice\<close>

text \<open>
  Source lines 105 to 134: the bounding ranges (taken from the data when the caller
  gives none; \<^verbatim>\<open>min\<close> of an empty array raises), their projection, the steps
  \<open>dx\<close> and \<open>dy\<close> and the extents of the two sub-lattices. The record holds the
  local variables the rest of the function reads.
\<close>

record lattice_geom =
  xmin :: real
  ymin :: real
  dx :: real
  dy :: real
  nx1 :: int
  ny1 :: int
  nx2 :: int
  ny2 :: int

definition range_or_data :: "(real \<times> real) option \<Rightarrow> real list \<Rightarrow> error + real \<times> real" where
  "range_or_data rng vals =
     (case rng of
        Some r \<Rightarrow> Inr r
      | None \<Rightarrow> (case vals of [] \<Rightarrow> Inl ValueError | v # vs \<Rightarrow> Inr (fold min vs v, fold max vs v)))"

definition hexbin_grid ::
  "(real \<times> real) list \<Rightarrow> (real \<times> real) option \<Rightarrow> (real \<times> real) option \<Rightarrow> int
     \<Rightarrow> error + lattice_geom" where
  "hexbin_grid points lat_range lon_range nx =
     (case range_or_data lat_range (map fst points) of
        Inl e \<Rightarrow> Inl e
      | Inr lat_r \<Rightarrow>
     (case range_or_data lon_range (map snd points) of
        Inl e \<Rightarrow> Inl e
      | Inr lon_r \<Rightarrow>
        (let (xa, ya) = project_latlon_to_wgs84 (fst lat_r) (fst lon_r);
             (xb, yb) = project_latlon_to_wgs84 (snd lat_r) (snd lon_r);
             x_min = min xa xb;
             x_max = max xa xb;
             y_min = min ya yb;
             y_max = max ya yb;
             Dx = x_max - x_min;
             Dy = y_max - y_min;
             d_x = Dx / of_int nx;
             d_y = d_x * sqrt 3;
             ny = np_round (Dy / d_y)
         in Inr \<lparr>xmin = x_min, ymin = y_min, dx = d_x, dy = d_y,
                  nx1 = nx + 1, ny1 = ny + 1, nx2 = nx, ny2 = ny\<rparr>)))"

text \<open>
  Source lines 103, 123 and 124: a point in lattice units. From here on \<open>x\<close> and \<open>y\<close>
  are these normalised coordinates, as in the source after line 124.
\<close>

definition lattice_units :: "lattice_geom \<Rightarrow> real \<times> real \<Rightarrow> real \<times> real" where
  "lattice_units g p =
     (let (x, y) = project_latlon_to_wgs84 (fst p) (snd p)
      in ((x - xmin g) / dx g, (y - ymin g) / dy g))"

text \<open>
  Source lines 125 to 138 and 143, 144: the candidate of the offset lattice is
  \<open>(ix1, iy1) = (np_round x, np_round y)\<close>, that of the base lattice is
  \<open>(ix2, iy2) = (\<lfloor>x\<rfloor>, \<lfloor>y\<rfloor>)\<close>.
\<close>

definition d1 :: "real \<Rightarrow> real \<Rightarrow> real" where
  "d1 x y = (x - of_int (np_round x))\<^sup>2 + 3 * (y - of_int (np_round y))\<^sup>2"

definition d2 :: "real \<Rightarrow> real \<Rightarrow> real" where
  "d2 x y = (x - of_int \<lfloor>x\<rfloor> - 0.5)\<^sup>2 + 3 * (y - of_int \<lfloor>y\<rfloor> - 0.5)\<^sup>2"

definition bdist :: "real \<Rightarrow> real \<Rightarrow> bool" where
  "bdist x y = (d1 x y < d2 x y)"

definition c1 :: "lattice_geom \<Rightarrow> real \<times> real \<Rightarrow> bool" where
  "c1 g p = (case p of (x, y) \<Rightarrow>
     0 \<le> np_round x \<and> np_round x < nx1 g \<and> 0 \<le> np_round y \<and> np_round y < ny1 g \<and> bdist x y)"

definition c2 :: "lattice_geom \<Rightarrow> real \<times> real \<Rightarrow> bool" where
  "c2 g p = (case p of (x, y) \<Rightarrow>
     0 \<le> \<lfloor>x\<rfloor> \<and> \<lfloor>x\<rfloor> < nx2 g \<and> 0 \<le> \<lfloor>y\<rfloor> \<and> \<lfloor>y\<rfloor> < ny2 g \<and> \<not> bdist x y)"

definition cell1 :: "real \<times> real \<Rightarrow> int \<times> int" where
  "cell1 p = (np_round (fst p), np_round (snd p))"

definition cell2 :: "real \<times> real \<Rightarrow> int \<times> int" where
  "cell2 p = (\<lfloor>fst p\<rfloor>, \<lfloor>snd p\<rfloor>)"

text \<open>
  A two-dimensional array is its shape together with a function from index pairs to
  entries; \<open>ravel\<close> lists the entries row by row, as \<^verbatim>\<open>ndarray.ravel\<close> does.
  \<^verbatim>\<open>np.zeros\<close> and \<^verbatim>\<open>np.empty\<close> refuse a negative dimension.
\<close>

type_synonym 'a lattice = "int \<times> int \<Rightarrow> 'a"

definition indices :: "int \<Rightarrow> int \<Rightarrow> (int \<times> int) list" where
  "indices n m = List.product [0..n - 1] [0..m - 1]"

definition ravel :: "int \<Rightarrow> int \<Rightarrow> 'a lattice \<Rightarrow> 'a list" where
  "ravel n m L = map L (indices n m)"

definition np_alloc :: "int \<Rightarrow> int \<Rightarrow> 'a \<Rightarrow> error + 'a lattice" where
  "np_alloc n m v = (if n < 0 \<or> m < 0 then Inl ValueError else Inr (\<lambda>ij. v))"

text \<open>\<^verbatim>\<open>np.add.at(lattice, (rows, cols), 1)\<close>: one increment for every index pair.\<close>

definition add_at :: "real lattice \<Rightarrow> (int \<times> int) list \<Rightarrow> real lattice" where
  "add_at L idx = fold (\<lambda>ij M. M(ij := M ij + 1)) idx L"

subsection \<open>Accumulation without a colour: counts\<close>

text \<open>
  Source lines 141 to 151. The two arrays are allocated by \<^verbatim>\<open>np.zeros\<close>, which can
  fail; the masks \<open>c1\<close> and \<open>c2\<close> select the points of each and \<^verbatim>\<open>np.add.at\<close>
  counts them. \<^verbatim>\<open>lattice[lattice < min_count] = np.nan\<close> drops a cell, and the two
  lattices are concatenated row by row. \<open>count_lattice1\<close> and \<open>count_lattice2\<close> name
  the two arrays as they are after \<^verbatim>\<open>np.add.at\<close>, for the statements below.
\<close>

definition count_lattice1 :: "lattice_geom \<Rightarrow> (real \<times> real) list \<Rightarrow> real lattice" where
  "count_lattice1 g pts = add_at (\<lambda>ij. 0) (map cell1 (filter (c1 g) pts))"

definition count_lattice2 :: "lattice_geom \<Rightarrow> (real \<times> real) list \<Rightarrow> real lattice" where
  "count_lattice2 g pts = add_at (\<lambda>ij. 0) (map cell2 (filter (c2 g) pts))"

definition mask_below :: "npfloat option \<Rightarrow> real \<Rightarrow> real option" where
  "mask_below min_count v =
     (case min_count of
        None \<Rightarrow> Some v
      | Some m \<Rightarrow> if lt_float v m then None else Some v)"

definition count_accum ::
  "lattice_geom \<Rightarrow> (real \<times> real) list \<Rightarrow> npfloat option \<Rightarrow> error + real option list" where
  "count_accum g pts min_count =
     (case np_alloc (nx1 g) (ny1 g) (0::real) of
        Inl e \<Rightarrow> Inl e
      | Inr z1 \<Rightarrow>
     (case np_alloc (nx2 g) (ny2 g) (0::real) of
        Inl e \<Rightarrow> Inl e
      | Inr z2 \<Rightarrow>
        (let lattice1 = add_at z1 (map cell1 (filter (c1 g) pts));
             lattice2 = add_at z2 (map cell2 (filter (c2 g) pts))
         in Inr (map (mask_below min_count) (ravel (nx1 g) (ny1 g) lattice1)
                 @ map (mask_below min_count) (ravel (nx2 g) (ny2 g) lattice2)))))"

subsection \<open>Accumulation with a colour: lists of values\<close>

text \<open>
  Source lines 153 to 191. The loop over the points appends \<^verbatim>\<open>color[i]\<close> to the
  list of one cell at most; reading \<^verbatim>\<open>color[i]\<close> past the end of the array
  raises. The aggregation function maps the collected values to a float, which may be
  NaN.
\<close>

fun collect ::
  "lattice_geom \<Rightarrow> real list \<Rightarrow> (real \<times> real) list \<Rightarrow> nat
     \<Rightarrow> real list lattice \<times> real list lattice
     \<Rightarrow> error + real list lattice \<times> real list lattice" where
  "collect g color [] i (L1, L2) = Inr (L1, L2)"
| "collect g color (p # ps) i (L1, L2) =
     (if bdist (fst p) (snd p) then
        (if 0 \<le> np_round (fst p) \<and> np_round (fst p) < nx1 g
             \<and> 0 \<le> np_round (snd p) \<and> np_round (snd p) < ny1 g then
           (if i < length color
            then collect g color ps (Suc i) (L1(cell1 p := L1 (cell1 p) @ [color ! i]), L2)
            else Inl IndexError)
         else collect g color ps (Suc i) (L1, L2))
      else
        (if 0 \<le> \<lfloor>fst p\<rfloor> \<and> \<lfloor>fst p\<rfloor> < nx2 g \<and> 0 \<le> \<lfloor>snd p\<rfloor> \<and> \<lfloor>snd p\<rfloor> < ny2 g then
           (if i < length color
            then collect g color ps (Suc i) (L1, L2(cell2 p := L2 (cell2 p) @ [color ! i]))
            else Inl IndexError)
         else collect g color ps (Suc i) (L1, L2)))"

definition aggregate_cell :: "(real list \<Rightarrow> real option) \<Rightarrow> npfloat \<Rightarrow> real list \<Rightarrow> real option" where
  "aggregate_cell agg_func min_count vals =
     (if gt_float (real (length vals)) min_count then agg_func vals else None)"

text \<open>
  What a cell holds after the loop, said without the loop: the colours of the points
  selected for the cell, in the order of the arrays. \<open>sel\<close> is the mask of the
  sub-lattice and \<open>cell\<close> its candidate.
\<close>

definition cell_values ::
  "(real \<times> real \<Rightarrow> bool) \<Rightarrow> (real \<times> real \<Rightarrow> int \<times> int) \<Rightarrow> (real \<times> real) list \<Rightarrow> real list
     \<Rightarrow> int \<times> int \<Rightarrow> real list" where
  "cell_values sel cell pts color c =
     map snd (filter (\<lambda>pv. sel (fst pv) \<and> cell (fst pv) = c) (zip pts color))"

definition value_accum ::
  "lattice_geom \<Rightarrow> real list \<Rightarrow> (real \<times> real) list \<Rightarrow> (real list \<Rightarrow> real option)
     \<Rightarrow> npfloat option \<Rightarrow> error + real option list" where
  "value_accum g color pts agg_func min_count =
     (let min_cnt = (case min_count of None \<Rightarrow> Fin 0 | Some m \<Rightarrow> m)
      in case np_alloc (nx1 g) (ny1 g) [] of
           Inl e \<Rightarrow> Inl e
         | Inr e1 \<Rightarrow>
        (case np_alloc (nx2 g) (ny2 g) [] of
           Inl e \<Rightarrow> Inl e
         | Inr e2 \<Rightarrow>
        (case collect g color pts 0 (e1, e2) of
           Inl e \<Rightarrow> Inl e
         | Inr (lattice1, lattice2) \<Rightarrow>
             Inr (map (aggregate_cell agg_func min_cnt) (ravel (nx1 g) (ny1 g) lattice1)
                  @ map (aggregate_cell agg_func min_cnt) (ravel (nx2 g) (ny2 g) lattice2)))))"

subsection \<open>The aggregator\<close>

text \<open>
  Source lines 102 to 191 of \<^verbatim>\<open>_compute_hexbin\<close>: the lattice and the array
  \<^verbatim>\<open>accum\<close> of all its cells, \<^term>\<open>None\<close> for a cell that holds NaN.
\<close>

definition hexbin_accum ::
  "(real \<times> real) list \<Rightarrow> (real \<times> real) option \<Rightarrow> (real \<times> real) option \<Rightarrow> real list option
     \<Rightarrow> int \<Rightarrow> (real list \<Rightarrow> real option) \<Rightarrow> npfloat option
     \<Rightarrow> error + lattice_geom \<times> real option list" where
  "hexbin_accum points lat_range lon_range color nx agg_func min_count =
     (case hexbin_grid points lat_range lon_range nx of
        Inl e \<Rightarrow> Inl e
      | Inr g \<Rightarrow>
        (let pts = map (lattice_units g) points
         in case (case color of
                    None \<Rightarrow> count_accum g pts min_count
                  | Some cl \<Rightarrow> value_accum g cl pts agg_func min_count) of
              Inl e \<Rightarrow> Inl e
            | Inr accum \<Rightarrow> Inr (g, accum)))"

text \<open>
  Source lines 193 to 237: the surviving cells, their centres, the scale of the hexagons
  read off the centres, and the corners of every hexagon projected back. The identifier
  of a hexagon is the text of its centre; the model keeps the centre itself.
\<close>

record hexbin_result =
  hexagons_lats :: "real list list"
  hexagons_lons :: "real list list"
  hexagons_ids :: "(real \<times> real) list"
  agreggated_value :: "real list"

definition centers :: "lattice_geom \<Rightarrow> (real \<times> real) list" where
  "centers g =
     map (\<lambda>(i, j). (of_int i * dx g + xmin g, of_int j * dy g + ymin g))
         (indices (nx1 g) (ny1 g))
     @ map (\<lambda>(i, j). ((of_int i + 0.5) * dx g + xmin g, (of_int j + 0.5) * dy g + ymin g))
         (indices (nx2 g) (ny2 g))"

definition pick :: "bool list \<Rightarrow> 'a list \<Rightarrow> 'a list" where
  "pick good vs = map snd (filter fst (zip good vs))"

definition np_diff :: "real list \<Rightarrow> real list" where
  "np_diff vs = map (\<lambda>(a, b). b - a) (zip vs (tl vs))"

text \<open>\<^verbatim>\<open>sorted(list(set(np.diff(sorted(v)))))[1]\<close>, source lines 221 and 222.\<close>

definition hex_scale :: "real list \<Rightarrow> error + real" where
  "hex_scale vs =
     (case sort (remdups (np_diff (sort vs))) of
        a # b # rest \<Rightarrow> Inr b
      | _ \<Rightarrow> Inl IndexError)"

definition hx :: "real list" where
  "hx = [0, 0.5, 0.5, 0, - 0.5, - 0.5]"

definition hy :: "real list" where
  "hy = [- 0.5 / cos (pi / 6), - 0.5 * tan (pi / 6), 0.5 * tan (pi / 6),
         0.5 / cos (pi / 6), 0.5 * tan (pi / 6), - 0.5 * tan (pi / 6)]"

definition hex_size :: "(real \<times> real) list \<Rightarrow> error + real \<times> real" where
  "hex_size cs =
     (case hex_scale (map fst cs) of
        Inl e \<Rightarrow> Inl e
      | Inr dxh \<Rightarrow>
     (case hex_scale (map snd cs) of
        Inl e \<Rightarrow> Inl e
      | Inr dyh \<Rightarrow> Inr (dxh * 2, 2 / 3 * dyh / (0.5 / cos (pi / 6)))))"

definition hexagons :: "lattice_geom \<Rightarrow> real option list \<Rightarrow> error + hexbin_result" where
  "hexagons g accum =
     (let good_idxs = map (\<lambda>v. v \<noteq> None) accum;
          values = map the (pick good_idxs accum);
          cs = pick good_idxs (centers g)
      in case hex_size cs of
           Inl e \<Rightarrow> Inl e
         | Inr (hex_nx, hex_ny) \<Rightarrow>
             (let hxs = map (\<lambda>c. map (\<lambda>h. h * hex_nx + fst c) hx) cs;
                  hys = map (\<lambda>c. map (\<lambda>h. h * hex_ny + snd c) hy) cs;
                  geo = map (\<lambda>(xs, ys). map (\<lambda>(x, y). project_wgs84_to_latlon x y) (zip xs ys))
                            (zip hxs hys)
              in Inr \<lparr>hexagons_lats = map (map fst) geo,
                      hexagons_lons = map (map snd) geo,
                      hexagons_ids = cs,
                      agreggated_value = values\<rparr>))"

text \<open>\<^verbatim>\<open>_compute_hexbin\<close>, source lines 63 to 237.\<close>

definition compute_hexbin ::
  "(real \<times> real) list \<Rightarrow> (real \<times> real) option \<Rightarrow> (real \<times> real) option \<Rightarrow> real list option
     \<Rightarrow> int \<Rightarrow> (real list \<Rightarrow> real option) \<Rightarrow> npfloat option \<Rightarrow> error + hexbin_result" where
  "compute_hexbin points lat_range lon_range color nx agg_func min_count =
     (case hexbin_accum points lat_range lon_range color nx agg_func min_count of
        Inl e \<Rightarrow> Inl e
      | Inr (g, accum) \<Rightarrow> hexagons g accum)"

subsection \<open>The default aggregation and an example lattice\<close>

text \<open>
  \<^verbatim>\<open>hexbin_mapbox\<close> passes \<^verbatim>\<open>np.mean\<close> when the caller names no aggregation
  function (source line 285); the mean of no values is NaN.
\<close>

definition np_mean :: "real list \<Rightarrow> real option" where
  "np_mean vals = (if vals = [] then None else Some (sum_list vals / real (length vals)))"

text \<open>
  The lattice of the bounding box with latitudes from -30 to 30 and longitudes from 0 to
  36 degrees for \<^verbatim>\<open>nx = 1\<close>: four cells in the offset lattice and one in the base
  lattice. The examples below run on it.
\<close>

definition example_geom :: lattice_geom where
  "example_geom = \<lparr>xmin = 0, ymin = - (ln 3 / 2), dx = pi / 5, dy = pi * sqrt 3 / 5,
                    nx1 = 2, ny1 = 2, nx2 = 1, ny2 = 1\<rparr>"

subsection \<open>The scale of the hexagons in the words of the specification\<close>

text \<open>
  Section 4.4 of the specification describes the scale as follows: sort the coordinates
  of the centres, take consecutive differences, collect the distinct positive values
  and take the second-smallest. This definition follows those words, for comparison
  with \<open>hex_scale\<close>, which follows the code.
\<close>

definition spec_true_spacing :: "real list \<Rightarrow> error + real" where
  "spec_true_spacing vs =
     (case sort (remdups (filter (\<lambda>d. 0 < d) (np_diff (sort vs)))) of
        a # b # rest \<Rightarrow> Inr b
      | _ \<Rightarrow> Inl IndexError)"

section \<open>Counting over a lattice\<close>

lemma add_at_count: "add_at L idx = (\<lambda>c. L c + real (count_list idx c))"
  unfolding add_at_def by (induction idx arbitrary: L) auto

lemma indices_set: "set (indices n m) = {(i, j). 0 \<le> i \<and> i < n \<and> 0 \<le> j \<and> j < m}"
  by (auto simp: indices_def)

lemma indices_distinct: "distinct (indices n m)"
  by (simp add: indices_def distinct_product)

lemma sum_indicator:
  "distinct cs \<Longrightarrow> c \<in> set cs \<Longrightarrow> (\<Sum>k\<leftarrow>cs. if c = k then 1 else 0) = (1::nat)"
  by (induction cs) auto

lemma sum_count_list:
  "distinct cs \<Longrightarrow> set idx \<subseteq> set cs \<Longrightarrow> (\<Sum>c\<leftarrow>cs. count_list idx c) = length idx"
proof (induction idx)
  case Nil
  then show ?case by simp
next
  case (Cons a idx)
  have "(\<Sum>c\<leftarrow>cs. count_list (a # idx) c)
          = (\<Sum>c\<leftarrow>cs. (if a = c then 1 else 0) + count_list idx c)"
    by (rule arg_cong [where f = sum_list]) simp
  also have "\<dots> = (\<Sum>c\<leftarrow>cs. if a = c then 1 else 0) + (\<Sum>c\<leftarrow>cs. count_list idx c)"
    by (simp add: sum_list_addf)
  finally show ?case using Cons by (simp add: sum_indicator)
qed

lemma sum_add_at:
  assumes "distinct cs" "set idx \<subseteq> set cs"
  shows "sum_list (map (add_at (\<lambda>ij. 0) idx) cs) = real (length idx)"
proof -
  have "sum_list (map (add_at (\<lambda>ij. 0) idx) cs) = (\<Sum>c\<leftarrow>cs. real (count_list idx c))"
    by (simp add: add_at_count)
  also have "\<dots> = real (\<Sum>c\<leftarrow>cs. count_list idx c)"
    by (induction cs) simp_all
  finally show ?thesis using assms by (simp add: sum_count_list)
qed

lemma c1_cell: "c1 g p \<Longrightarrow> cell1 p \<in> set (indices (nx1 g) (ny1 g))"
  by (auto simp: c1_def cell1_def indices_set split: prod.splits)

lemma c2_cell: "c2 g p \<Longrightarrow> cell2 p \<in> set (indices (nx2 g) (ny2 g))"
  by (auto simp: c2_def cell2_def indices_set split: prod.splits)

lemma sum_count_lattice1:
  "sum_list (ravel (nx1 g) (ny1 g) (count_lattice1 g pts)) = real (length (filter (c1 g) pts))"
  unfolding ravel_def count_lattice1_def
  by (subst sum_add_at) (auto simp: indices_distinct c1_cell)

lemma sum_count_lattice2:
  "sum_list (ravel (nx2 g) (ny2 g) (count_lattice2 g pts)) = real (length (filter (c2 g) pts))"
  unfolding ravel_def count_lattice2_def
  by (subst sum_add_at) (auto simp: indices_distinct c2_cell)

lemma c1_c2_exclusive: "\<not> (c1 g p \<and> c2 g p)"
  by (auto simp: c1_def c2_def split: prod.splits)

lemma length_filter_disjoint:
  "(\<And>p. \<not> (P p \<and> Q p)) \<Longrightarrow>
     length (filter P ps) + length (filter Q ps) = length (filter (\<lambda>p. P p \<or> Q p) ps)"
  by (induction ps) auto

section \<open>The loop that collects colours\<close>

lemma c1_alt: "c1 g p = (0 \<le> np_round (fst p) \<and> np_round (fst p) < nx1 g
     \<and> 0 \<le> np_round (snd p) \<and> np_round (snd p) < ny1 g \<and> bdist (fst p) (snd p))"
  by (simp add: c1_def split: prod.splits)

lemma c2_alt: "c2 g p = (0 \<le> \<lfloor>fst p\<rfloor> \<and> \<lfloor>fst p\<rfloor> < nx2 g
     \<and> 0 \<le> \<lfloor>snd p\<rfloor> \<and> \<lfloor>snd p\<rfloor> < ny2 g \<and> \<not> bdist (fst p) (snd p))"
  by (simp add: c2_def split: prod.splits)

lemma collect_step:
  "collect g color (p # ps) i (L1, L2) =
     (if c1 g p then
        (if i < length color
         then collect g color ps (Suc i) (L1(cell1 p := L1 (cell1 p) @ [color ! i]), L2)
         else Inl IndexError)
      else if c2 g p then
        (if i < length color
         then collect g color ps (Suc i) (L1, L2(cell2 p := L2 (cell2 p) @ [color ! i]))
         else Inl IndexError)
      else collect g color ps (Suc i) (L1, L2))"
  by (auto simp: c1_alt c2_alt)

lemma cell_values_Nil [simp]: "cell_values sel cell [] color c = []"
  by (simp add: cell_values_def)

lemma cell_values_short [simp]: "cell_values sel cell pts [] c = []"
  by (simp add: cell_values_def)

lemma cell_values_Cons:
  "cell_values sel cell (p # ps) (v # vs) c =
     (if sel p \<and> cell p = c then v # cell_values sel cell ps vs c else cell_values sel cell ps vs c)"
  by (simp add: cell_values_def)

lemma collect_contents:
  "collect g color pts i (L1, L2) = Inr (M1, M2) \<Longrightarrow>
     M1 = (\<lambda>c. L1 c @ cell_values (c1 g) cell1 pts (drop i color) c)
   \<and> M2 = (\<lambda>c. L2 c @ cell_values (c2 g) cell2 pts (drop i color) c)"
proof (induction pts arbitrary: i L1 L2)
  case Nil
  then show ?case by simp
next
  case (Cons p ps)
  show ?case
  proof (cases "i < length color")
    case True
    then have d: "drop i color = color ! i # drop (Suc i) color"
      by (simp add: Cons_nth_drop_Suc)
    show ?thesis
    proof (cases "c1 g p")
      case True
      then have n2: "\<not> c2 g p" using c1_c2_exclusive by blast
      from Cons.prems True \<open>i < length color\<close>
      have "collect g color ps (Suc i) (L1(cell1 p := L1 (cell1 p) @ [color ! i]), L2) = Inr (M1, M2)"
        by (simp only: collect_step if_True)
      from Cons.IH [OF this] show ?thesis
        using True n2 by (auto simp: d cell_values_Cons fun_eq_iff)
    next
      case False
      note n1 = this
      show ?thesis
      proof (cases "c2 g p")
        case True
        from Cons.prems True n1 \<open>i < length color\<close>
        have "collect g color ps (Suc i) (L1, L2(cell2 p := L2 (cell2 p) @ [color ! i])) = Inr (M1, M2)"
          by (simp only: collect_step if_True if_False)
        from Cons.IH [OF this] show ?thesis
          using True n1 by (auto simp: d cell_values_Cons fun_eq_iff)
      next
        case False
        from Cons.prems False n1
        have "collect g color ps (Suc i) (L1, L2) = Inr (M1, M2)"
          by (simp only: collect_step if_False)
        from Cons.IH [OF this] show ?thesis
          using False n1 by (auto simp: d cell_values_Cons fun_eq_iff)
      qed
    qed
  next
    case False
    then have d: "drop i color = []" "drop (Suc i) color = []" by simp_all
    from Cons.prems False have n: "\<not> c1 g p" "\<not> c2 g p"
      by (auto simp only: collect_step split: if_splits)
    with Cons.prems have "collect g color ps (Suc i) (L1, L2) = Inr (M1, M2)"
      by (simp only: collect_step if_False)
    from Cons.IH [OF this] show ?thesis
      by (simp add: d)
  qed
qed

lemma collect_total:
  "length pts + i \<le> length color \<Longrightarrow> \<exists>M1 M2. collect g color pts i (L1, L2) = Inr (M1, M2)"
  by (induction pts arbitrary: i L1 L2) (simp_all add: collect_step del: collect.simps(2))

lemma sum_length_filter_cells:
  "distinct cs \<Longrightarrow> (\<And>z. P z \<Longrightarrow> f z \<in> set cs) \<Longrightarrow>
     (\<Sum>c\<leftarrow>cs. length (filter (\<lambda>z. P z \<and> f z = c) zs)) = length (filter P zs)"
proof (induction zs)
  case Nil
  then show ?case by simp
next
  case (Cons z zs)
  have "(\<Sum>c\<leftarrow>cs. length (filter (\<lambda>z. P z \<and> f z = c) (z # zs)))
          = (\<Sum>c\<leftarrow>cs. (if P z \<and> f z = c then 1 else 0) + length (filter (\<lambda>z. P z \<and> f z = c) zs))"
    by (rule arg_cong [where f = sum_list]) simp
  also have "\<dots> = (\<Sum>c\<leftarrow>cs. if P z \<and> f z = c then 1 else 0) + length (filter P zs)"
    using Cons by (simp add: sum_list_addf)
  also have "(\<Sum>c\<leftarrow>cs. if P z \<and> f z = c then 1 else 0) = (if P z then 1 else (0::nat))"
  proof (cases "P z")
    case True
    then have "(\<Sum>c\<leftarrow>cs. if P z \<and> f z = c then 1 else (0::nat)) = (\<Sum>c\<leftarrow>cs. if f z = c then 1 else 0)"
      by simp
    then show ?thesis
      using True Cons.prems(1) Cons.prems(2) [OF True] by (simp add: sum_indicator)
  next
    case False
    then show ?thesis by simp
  qed
  finally show ?case by simp
qed

lemma sum_cell_values:
  assumes "distinct cs" and "\<And>p. sel p \<Longrightarrow> cell p \<in> set cs"
  shows "(\<Sum>c\<leftarrow>cs. length (cell_values sel cell pts color c))
           = length (filter (\<lambda>pv. sel (fst pv)) (zip pts color))"
  unfolding cell_values_def length_map
  by (rule sum_length_filter_cells) (use assms in auto)

section \<open>A point is accumulated once at most\<close>

text \<open>
  Claim C10. The two masks exclude each other, so a point is accumulated in one cell of
  one sub-lattice at most. Without a colour the entries of the two count arrays add up
  to the number of points that one of the masks selects, which is at most the number of
  points; with a colour the lists of the two arrays hold, together, at most one value
  for every point.
\<close>

theorem point_in_at_most_one_cell:
  "\<not> (c1 g p \<and> c2 g p)
   \<and> sum_list (ravel (nx1 g) (ny1 g) (count_lattice1 g pts))
       + sum_list (ravel (nx2 g) (ny2 g) (count_lattice2 g pts))
       = real (length (filter (\<lambda>q. c1 g q \<or> c2 g q) pts))
   \<and> sum_list (ravel (nx1 g) (ny1 g) (count_lattice1 g pts))
       + sum_list (ravel (nx2 g) (ny2 g) (count_lattice2 g pts))
       \<le> real (length pts)
   \<and> (collect g color pts 0 (\<lambda>c. [], \<lambda>c. []) = Inr (M1, M2) \<longrightarrow>
        (\<Sum>c\<leftarrow>indices (nx1 g) (ny1 g). length (M1 c))
          + (\<Sum>c\<leftarrow>indices (nx2 g) (ny2 g). length (M2 c)) \<le> length pts)"
proof -
  have excl: "\<not> (c1 g q \<and> c2 g q)" for q by (rule c1_c2_exclusive)
  have total: "sum_list (ravel (nx1 g) (ny1 g) (count_lattice1 g pts))
       + sum_list (ravel (nx2 g) (ny2 g) (count_lattice2 g pts))
       = real (length (filter (\<lambda>q. c1 g q \<or> c2 g q) pts))"
    using length_filter_disjoint [of "c1 g" "c2 g" pts, OF excl]
    by (simp add: sum_count_lattice1 sum_count_lattice2 flip: of_nat_add)
  have "real (length (filter (\<lambda>q. c1 g q \<or> c2 g q) pts)) \<le> real (length pts)"
    by simp
  with total have bound: "sum_list (ravel (nx1 g) (ny1 g) (count_lattice1 g pts))
       + sum_list (ravel (nx2 g) (ny2 g) (count_lattice2 g pts)) \<le> real (length pts)"
    by simp
  have coloured: "(\<Sum>c\<leftarrow>indices (nx1 g) (ny1 g). length (M1 c))
          + (\<Sum>c\<leftarrow>indices (nx2 g) (ny2 g). length (M2 c)) \<le> length pts"
    if "collect g color pts 0 (\<lambda>c. [], \<lambda>c. []) = Inr (M1, M2)"
  proof -
    from collect_contents [OF that]
    have M: "M1 = cell_values (c1 g) cell1 pts color" "M2 = cell_values (c2 g) cell2 pts color"
      by (simp_all add: fun_eq_iff)
    let ?zs = "zip pts color"
    have "(\<Sum>c\<leftarrow>indices (nx1 g) (ny1 g). length (M1 c))
            + (\<Sum>c\<leftarrow>indices (nx2 g) (ny2 g). length (M2 c))
          = length (filter (\<lambda>pv. c1 g (fst pv)) ?zs) + length (filter (\<lambda>pv. c2 g (fst pv)) ?zs)"
      unfolding M by (simp add: sum_cell_values indices_distinct c1_cell c2_cell)
    also have "\<dots> = length (filter (\<lambda>pv. c1 g (fst pv) \<or> c2 g (fst pv)) ?zs)"
      by (rule length_filter_disjoint) (rule excl)
    also have "\<dots> \<le> length ?zs" by (rule length_filter_le)
    also have "\<dots> \<le> length pts" by simp
    finally show ?thesis .
  qed
  from excl total bound coloured show ?thesis by blast
qed

theorem point_in_at_most_one_cell_witness:
  "collect \<lparr>xmin = 0, ymin = 0, dx = 1, dy = sqrt 3, nx1 = 2, ny1 = 2, nx2 = 1, ny2 = 1\<rparr>
      [7, 9] [(1 / 4, 0), (1 / 2, 1 / 2)] 0 (\<lambda>c. [], \<lambda>c. [])
     = Inr ((\<lambda>c. [])((0, 0) := [7]), (\<lambda>c. [])((0, 0) := [9]))
   \<and> (\<Sum>c\<leftarrow>indices 2 2. length (((\<lambda>c. [])((0, 0) := [7::real])) c))
       + (\<Sum>c\<leftarrow>indices 1 1. length (((\<lambda>c. [])((0, 0) := [9::real])) c))
       \<le> length [(1 / 4 :: real, 0 :: real), (1 / 2, 1 / 2)]"
  using point_in_at_most_one_cell
    [of "\<lparr>xmin = 0, ymin = 0, dx = 1, dy = sqrt 3, nx1 = 2, ny1 = 2, nx2 = 1, ny2 = 1\<rparr>"
        "(1 / 4, 0)" "[(1 / 4, 0), (1 / 2, 1 / 2)]" "[7, 9]"
        "(\<lambda>c. [])((0, 0) := [7])" "(\<lambda>c. [])((0, 0) := [9])"]
  by (simp add: bdist_def d1_def d2_def np_round_def cell1_def cell2_def Let_def power2_eq_square)

section \<open>The stages of the aggregator\<close>

lemma pick_map_filter: "pick (map P vs) vs = filter P vs"
  unfolding pick_def by (induction vs) auto

lemma pick_none: "\<forall>b\<in>set good. \<not> b \<Longrightarrow> pick good vs = []"
  unfolding pick_def by (auto simp: filter_empty_conv dest: set_zip_leftD)

lemma hex_scale_Nil: "hex_scale [] = Inl IndexError"
  by (simp add: hex_scale_def np_diff_def)

lemma hexagons_values:
  assumes "hexagons g accum = Inr r"
  shows "agreggated_value r = map the (filter (\<lambda>v. v \<noteq> None) accum)"
  using assms
  by (auto simp: hexagons_def Let_def pick_map_filter split: sum.splits prod.splits)

lemma hexagons_no_bins:
  assumes "\<forall>v\<in>set accum. v = None"
  shows "hexagons g accum = Inl IndexError"
proof -
  have "pick (map (\<lambda>v. v \<noteq> None) accum) (centers g) = []"
    by (rule pick_none) (use assms in auto)
  then show ?thesis
    by (simp add: hexagons_def hex_size_def hex_scale_Nil)
qed

lemma count_accum_Inr:
  assumes "count_accum g pts min_count = Inr accum"
  shows "accum = map (mask_below min_count) (ravel (nx1 g) (ny1 g) (count_lattice1 g pts))
                 @ map (mask_below min_count) (ravel (nx2 g) (ny2 g) (count_lattice2 g pts))"
  using assms
  by (auto simp: count_accum_def np_alloc_def count_lattice1_def count_lattice2_def Let_def
           split: sum.splits if_splits)

lemma count_accum_shape:
  assumes "0 \<le> nx1 g" "0 \<le> ny1 g" "0 \<le> nx2 g" "0 \<le> ny2 g"
  shows "count_accum g pts min_count
           = Inr (map (mask_below min_count) (ravel (nx1 g) (ny1 g) (count_lattice1 g pts))
                  @ map (mask_below min_count) (ravel (nx2 g) (ny2 g) (count_lattice2 g pts)))"
  using assms by (simp add: count_accum_def np_alloc_def count_lattice1_def count_lattice2_def)

lemma hexbin_accum_count:
  assumes "hexbin_accum points lat_range lon_range None nx agg_func min_count = Inr (g, accum)"
  shows "hexbin_grid points lat_range lon_range nx = Inr g"
    and "count_accum g (map (lattice_units g) points) min_count = Inr accum"
  using assms by (auto simp: hexbin_accum_def Let_def split: sum.splits)

lemma mask_NegInf: "mask_below (Some NegInf) = Some"
  by (simp add: mask_below_def fun_eq_iff)

section \<open>Bounds on the constants of the example lattice\<close>

lemma pi_ge_3: "3 \<le> pi"
proof -
  have "sin (pi / 6) \<le> pi / 6" by (rule sin_x_le_x) simp
  then show ?thesis by (simp add: sin_30)
qed

lemma sqrt3_bounds: "17 / 10 < sqrt 3" "sqrt 3 < 18 / 10"
proof -
  show "17 / 10 < sqrt 3" by (rule real_less_rsqrt) (simp add: power2_eq_square)
  show "sqrt 3 < 18 / 10" by (rule real_less_lsqrt) (simp_all add: power2_eq_square)
qed

lemma ln3_bounds: "1 \<le> ln (3::real)" "ln (3::real) \<le> 13 / 10"
proof -
  show "1 \<le> ln (3::real)" using exp_le by (simp add: ln_ge_iff)
  have "1 + 13 / 10 + (13 / 10)\<^sup>2 / 2 \<le> exp (13 / 10 :: real)"
    by (rule exp_lower_Taylor_quadratic) simp
  then have "3 \<le> exp (13 / 10 :: real)" by (simp add: power2_eq_square)
  then have "ln (3::real) \<le> ln (exp (13 / 10))"
    by (subst ln_le_cancel_iff) simp_all
  then show "ln (3::real) \<le> 13 / 10" by simp
qed

lemma step_bounds: "51 / 50 < pi * sqrt 3 / 5" "pi * sqrt 3 / 5 < 36 / 25"
proof -
  have "3 * (17 / 10) < pi * sqrt 3"
    by (rule mult_le_less_imp_less) (use pi_ge_3 sqrt3_bounds in simp_all)
  then show "51 / 50 < pi * sqrt 3 / 5" by simp
  have "pi * sqrt 3 < 4 * (18 / 10)"
    by (rule mult_strict_mono) (use pi_less_4 sqrt3_bounds in simp_all)
  then show "pi * sqrt 3 / 5 < 36 / 25" by simp
qed

lemma ratio_bounds:
  "25 / 36 < ln 3 / (pi * sqrt 3 / 5)" "ln 3 / (pi * sqrt 3 / 5) < 65 / 51"
proof -
  have pos: "0 < pi * sqrt 3 / 5" using step_bounds(1) by linarith
  show "25 / 36 < ln 3 / (pi * sqrt 3 / 5)"
    using step_bounds(2) ln3_bounds(1) pos by (subst pos_less_divide_eq) linarith+
  show "ln 3 / (pi * sqrt 3 / 5) < 65 / 51"
    using step_bounds(1) ln3_bounds(2) pos by (subst pos_divide_less_eq) linarith+
qed

lemma np_round_eq:
  assumes "of_int n - 1 / 2 < v" "v < of_int n + 1 / 2"
  shows "np_round v = n"
proof -
  have "\<lfloor>v\<rfloor> = n \<or> \<lfloor>v\<rfloor> = n - 1" using assms by linarith
  then show ?thesis
  proof
    assume "\<lfloor>v\<rfloor> = n"
    then show ?thesis using assms by (simp add: np_round_def Let_def)
  next
    assume f: "\<lfloor>v\<rfloor> = n - 1"
    then have "1 / 2 < v - of_int (n - 1)" using assms by simp
    then show ?thesis using f by (simp add: np_round_def Let_def)
  qed
qed

lemma np_round_of_int [simp]: "np_round (of_int n) = n"
  by (simp add: np_round_def)

lemma artanh_half: "artanh (1 / 2 :: real) = ln 3 / 2"
  by (simp add: artanh_def)

lemma artanh_sin_m30: "artanh (sin (- 30 * pi / 180)) = - (ln 3 / 2)"
proof -
  have "- 30 * pi / 180 = - (pi / 6)" by simp
  then have s: "sin (- 30 * pi / 180) = - (1 / 2)"
    by (simp only: sin_minus sin_30)
  have "artanh (- (1 / 2) :: real) = - artanh (1 / 2)"
    by (rule artanh_minus_real) simp
  then show ?thesis by (simp only: s artanh_half)
qed

lemma artanh_sin_30: "artanh (sin (30 * pi / 180)) = ln 3 / 2"
proof -
  have "30 * pi / 180 = pi / 6" by simp
  then show ?thesis by (simp only: sin_30 artanh_half)
qed

lemma project_m30: "project_latlon_to_wgs84 (- 30) lon = (lon * pi / 180, - (ln 3 / 2))"
  by (simp only: project_latlon_to_wgs84_def Let_def artanh_sin_m30)

lemma project_30: "project_latlon_to_wgs84 30 lon = (lon * pi / 180, ln 3 / 2)"
  by (simp only: project_latlon_to_wgs84_def Let_def artanh_sin_30)

lemma project_0: "project_latlon_to_wgs84 0 lon = (lon * pi / 180, 0)"
  by (simp add: project_latlon_to_wgs84_def)

lemma example_grid:
  "hexbin_grid points (Some (- 30, 30)) (Some (0, 36)) 1 = Inr example_geom"
proof -
  have lo: "1 - 1 / 2 < ln 3 / (pi * sqrt 3 / 5)"
    using ratio_bounds(1) by linarith
  have hi: "ln 3 / (pi * sqrt 3 / 5) < 1 + 1 / 2"
    using ratio_bounds(2) by linarith
  have "np_round (ln 3 / (pi * sqrt 3 / 5)) = 1"
    using lo hi by (rule np_round_eq [of 1, unfolded of_int_1])
  moreover have "5 * ln 3 / (pi * sqrt 3) = ln 3 / (pi * sqrt 3 / 5)" by simp
  ultimately have r: "np_round (5 * ln 3 / (pi * sqrt 3)) = 1" by (simp only:)
  have "0 < ln (3::real)" by simp
  then have m: "min (- (ln 3 / 2)) (ln 3 / 2 :: real) = - (ln 3 / 2)"
     "max (- (ln 3 / 2)) (ln 3 / 2 :: real) = ln 3 / 2"
    by simp_all
  show ?thesis
    using m
    by (simp add: hexbin_grid_def range_or_data_def project_m30 project_30 example_geom_def r)
qed

section \<open>The example lattice, evaluated\<close>

lemma compute_hexbin_values:
  assumes "hexbin_accum points lat_range lon_range color nx agg_func min_count = Inr (g, accum)"
    and "hex_size (pick (map (\<lambda>v. v \<noteq> None) accum) (centers g)) = Inr s"
  shows "\<exists>r. compute_hexbin points lat_range lon_range color nx agg_func min_count = Inr r
             \<and> agreggated_value r = map the (filter (\<lambda>v. v \<noteq> None) accum)"
  using assms
  by (cases s) (simp add: compute_hexbin_def hexagons_def Let_def pick_map_filter)

lemma edge_point_not_offset:
  assumes "1 / 3 \<le> y - of_int \<lfloor>y\<rfloor>" "y - of_int \<lfloor>y\<rfloor> \<le> 2 / 3"
  shows "\<not> bdist (of_int n) y"
proof -
  define f where "f = y - of_int \<lfloor>y\<rfloor>"
  have f: "1 / 3 \<le> f" "f \<le> 2 / 3" using assms by (simp_all add: f_def)
  have d2: "d2 (of_int n) y = 1 / 4 + 3 * (f - 1 / 2)\<^sup>2"
    by (simp add: d2_def f_def power2_eq_square)
  have "np_round y = \<lfloor>y\<rfloor> \<or> np_round y = \<lfloor>y\<rfloor> + 1"
    by (simp add: np_round_def Let_def)
  then have "d2 (of_int n) y \<le> d1 (of_int n) y"
  proof
    assume r: "np_round y = \<lfloor>y\<rfloor>"
    then have "d1 (of_int n) y = 3 * f\<^sup>2" by (simp add: d1_def f_def)
    moreover have "1 / 4 + 3 * (f - 1 / 2)\<^sup>2 \<le> 3 * f\<^sup>2"
      using f by (simp add: power2_eq_square algebra_simps)
    ultimately show ?thesis by (simp add: d2)
  next
    assume r: "np_round y = \<lfloor>y\<rfloor> + 1"
    then have "d1 (of_int n) y = 3 * (f - 1)\<^sup>2" by (simp add: d1_def f_def algebra_simps)
    moreover have "1 / 4 + 3 * (f - 1 / 2)\<^sup>2 \<le> 3 * (f - 1)\<^sup>2"
      using f by (simp add: power2_eq_square algebra_simps)
    ultimately show ?thesis by (simp add: d2)
  qed
  then show ?thesis by (simp add: bdist_def)
qed

lemma edge_point_dropped:
  assumes "1 / 3 \<le> y - of_int \<lfloor>y\<rfloor>" "y - of_int \<lfloor>y\<rfloor> \<le> 2 / 3"
  shows "\<not> c1 g (of_int (nx2 g), y)" and "\<not> c2 g (of_int (nx2 g), y)"
  using edge_point_not_offset [OF assms, of "nx2 g"] by (simp_all add: c1_def c2_def)

lemma example_mid_height:
  "1 / 3 \<le> ln 3 / 2 / (pi * sqrt 3 / 5)" "ln 3 / 2 / (pi * sqrt 3 / 5) \<le> 2 / 3"
proof -
  have "ln 3 / 2 / (pi * sqrt 3 / 5) = ln 3 / (pi * sqrt 3 / 5) / 2" by simp
  then show "1 / 3 \<le> ln 3 / 2 / (pi * sqrt 3 / 5)" "ln 3 / 2 / (pi * sqrt 3 / 5) \<le> 2 / 3"
    using ratio_bounds by linarith+
qed

lemma example_units_edge:
  "lattice_units example_geom (0, 36) = (1, ln 3 / 2 / (pi * sqrt 3 / 5))"
  by (simp add: lattice_units_def project_0 example_geom_def)

lemma example_units_low:
  "lattice_units example_geom (- 30, 9) = (1 / 4, 0)"
  by (simp add: lattice_units_def project_m30 example_geom_def)

lemma example_dims [simp]:
  "nx1 example_geom = 2" "ny1 example_geom = 2" "nx2 example_geom = 1" "ny2 example_geom = 1"
  by (simp_all add: example_geom_def)

lemma example_edge_unselected:
  "\<not> c1 example_geom (lattice_units example_geom (0, 36))"
  "\<not> c2 example_geom (lattice_units example_geom (0, 36))"
proof -
  let ?y = "ln 3 / 2 / (pi * sqrt 3 / 5)"
  have "\<lfloor>?y\<rfloor> = 0" using example_mid_height by linarith
  then have f: "1 / 3 \<le> ?y - of_int \<lfloor>?y\<rfloor>" "?y - of_int \<lfloor>?y\<rfloor> \<le> 2 / 3"
    using example_mid_height by simp_all
  have "\<not> c1 example_geom (of_int (nx2 example_geom), ?y)"
       "\<not> c2 example_geom (of_int (nx2 example_geom), ?y)"
    by (rule edge_point_dropped [OF f])+
  then show "\<not> c1 example_geom (lattice_units example_geom (0, 36))"
    "\<not> c2 example_geom (lattice_units example_geom (0, 36))"
    by (simp_all add: example_units_edge)
qed

lemma example_low_selected:
  "c1 example_geom (1 / 4, 0)" "\<not> c2 example_geom (1 / 4, 0)" "cell1 (1 / 4, 0) = (0, 0)"
  by (simp_all add: c1_def c2_def cell1_def bdist_def d1_def d2_def np_round_def
       example_geom_def Let_def power2_eq_square)

lemma indices_eval:
  "indices 2 2 = [(0, 0), (0, 1), (1, 0), (1, 1)]"
  "indices 1 1 = [(0, 0)]"
  "indices 2 1 = [(0, 0), (1, 0)]"
  "indices 1 0 = []"
  by (simp_all add: indices_def upto.simps)

lemma hex_scale_lattice:
  assumes "0 < d" and "vs = [a, a + d, a, a + d, a + d / 2]"
  shows "hex_scale vs = Inr (d / 2)"
proof -
  have "sort vs = [a, a, a + d / 2, a + d, a + d]"
    using assms by simp
  then have "np_diff (sort vs) = [0, d / 2, d / 2, 0]"
    by (simp add: np_diff_def)
  then show ?thesis using assms(1) by (simp add: hex_scale_def)
qed

lemma hex_scale_lattice':
  assumes "0 < d" and "vs = [a, a, a + d, a + d, a + d / 2]"
  shows "hex_scale vs = Inr (d / 2)"
proof -
  have "sort vs = [a, a, a + d / 2, a + d, a + d]"
    using assms by simp
  then have "np_diff (sort vs) = [0, d / 2, d / 2, 0]"
    by (simp add: np_diff_def)
  then show ?thesis using assms(1) by (simp add: hex_scale_def)
qed

lemma example_centers:
  "centers example_geom
   = [(0, - (ln 3 / 2)), (0, - (ln 3 / 2) + pi * sqrt 3 / 5),
      (pi / 5, - (ln 3 / 2)), (pi / 5, - (ln 3 / 2) + pi * sqrt 3 / 5),
      (pi / 10, - (ln 3 / 2) + pi * sqrt 3 / 10)]"
  by (simp add: centers_def indices_eval example_geom_def)

lemma example_hex_size:
  "hex_size (centers example_geom)
   = Inr (pi / 5, 2 / 3 * (pi * sqrt 3 / 10) / (0.5 / cos (pi / 6)))"
proof -
  have "hex_scale [0, 0, pi / 5, pi / 5, pi / 10] = Inr (pi / 5 / 2)"
    by (rule hex_scale_lattice' [where a = 0]) simp_all
  moreover have "hex_scale [- (ln 3 / 2), - (ln 3 / 2) + pi * sqrt 3 / 5, - (ln 3 / 2),
            - (ln 3 / 2) + pi * sqrt 3 / 5, - (ln 3 / 2) + pi * sqrt 3 / 10]
      = Inr (pi * sqrt 3 / 5 / 2)"
    by (rule hex_scale_lattice [where a = "- (ln 3 / 2)"]) simp_all
  ultimately show ?thesis by (simp add: hex_size_def example_centers)
qed

lemma example_accum_edge:
  "hexbin_accum [(0, 36)] (Some (- 30, 30)) (Some (0, 36)) None 1 np_mean (Some NegInf)
     = Inr (example_geom, [Some 0, Some 0, Some 0, Some 0, Some 0])"
  by (simp add: hexbin_accum_def example_grid count_accum_shape
        count_lattice1_def count_lattice2_def example_edge_unselected add_at_def ravel_def
        indices_eval mask_NegInf)

lemma example_accum_two:
  "hexbin_accum [(- 30, 9), (0, 36)] (Some (- 30, 30)) (Some (0, 36)) None 1 np_mean (Some NegInf)
     = Inr (example_geom, [Some 1, Some 0, Some 0, Some 0, Some 0])"
  by (simp add: hexbin_accum_def example_grid count_accum_shape
        example_units_low example_low_selected
        count_lattice1_def count_lattice2_def example_edge_unselected add_at_def ravel_def
        indices_eval mask_NegInf)

lemma example_all_kept:
  "hex_size (pick (map (\<lambda>v. v \<noteq> None) [Some a, Some b, Some c, Some d, Some e])
                  (centers example_geom))
     = Inr (pi / 5, 2 / 3 * (pi * sqrt 3 / 10) / (0.5 / cos (pi / 6)))"
proof -
  have "pick (map (\<lambda>v. v \<noteq> None) [Some a, Some b, Some c, Some d, Some e])
          (centers example_geom) = centers example_geom"
    by (simp add: pick_def example_centers)
  then show ?thesis by (simp only: example_hex_size)
qed

section \<open>What the counts add up to\<close>

text \<open>
  Claim C1, as amended. In count mode with \<^verbatim>\<open>min_count = -np.inf\<close> every cell of both
  lattices is emitted, and when the call returns the counts add up to the number of
  input points whose chosen candidate, the offset cell when it is strictly closer and
  the base cell otherwise, lies inside the index range of its sub-lattice. That is not
  the number of points inside the bounding range: a point on the right edge of the
  range whose nearest centre would be a base cell one column past the last is counted
  nowhere, as the second theorem after this one shows for the middle of that edge.
\<close>

theorem counts_conserved:
  assumes "compute_hexbin points lat_range lon_range None nx agg_func (Some NegInf) = Inr r"
    and "hexbin_grid points lat_range lon_range nx = Inr g"
  shows "sum_list (agreggated_value r)
           = real (length (filter (\<lambda>p. c1 g (lattice_units g p) \<or> c2 g (lattice_units g p))
                                  points))"
proof -
  from assms(1) obtain g' accum
    where acc: "hexbin_accum points lat_range lon_range None nx agg_func (Some NegInf)
                  = Inr (g', accum)"
      and hex: "hexagons g' accum = Inr r"
    by (auto simp: compute_hexbin_def split: sum.splits)
  from hexbin_accum_count [OF acc] assms(2)
  have g: "g' = g" and cnt: "count_accum g (map (lattice_units g) points) (Some NegInf) = Inr accum"
    by simp_all
  let ?pts = "map (lattice_units g) points"
  let ?l1 = "ravel (nx1 g) (ny1 g) (count_lattice1 g ?pts)"
  let ?l2 = "ravel (nx2 g) (ny2 g) (count_lattice2 g ?pts)"
  have accum: "accum = map Some (?l1 @ ?l2)"
    using count_accum_Inr [OF cnt] by (simp add: mask_NegInf)
  have "agreggated_value r = ?l1 @ ?l2"
    using hexagons_values [OF hex] unfolding accum
    by (simp add: filter_map comp_def)
  then have "sum_list (agreggated_value r) = real (length (filter (c1 g) ?pts))
                                             + real (length (filter (c2 g) ?pts))"
    by (simp add: sum_count_lattice1 sum_count_lattice2)
  also have "\<dots> = real (length (filter (\<lambda>q. c1 g q \<or> c2 g q) ?pts))"
    using length_filter_disjoint [of "c1 g" "c2 g" ?pts, OF c1_c2_exclusive]
    by (simp flip: of_nat_add)
  also have "\<dots> = real (length (filter (\<lambda>p. c1 g (lattice_units g p) \<or> c2 g (lattice_units g p))
                                  points))"
    by (simp add: filter_map comp_def)
  finally show ?thesis .
qed

theorem counts_conserved_witness:
  "hexbin_grid [(- 30, 9), (0, 36)] (Some (- 30, 30)) (Some (0, 36)) 1 = Inr example_geom
   \<and> map_sum id agreggated_value
        (compute_hexbin [(- 30, 9), (0, 36)] (Some (- 30, 30)) (Some (0, 36)) None 1 np_mean
           (Some NegInf))
       = Inr [1, 0, 0, 0, 0]
   \<and> sum_list [1, 0, 0, 0, 0 :: real]
       = real (length (filter (\<lambda>p. c1 example_geom (lattice_units example_geom p)
                                    \<or> c2 example_geom (lattice_units example_geom p))
                              [(- 30, 9), (0, 36)]))"
proof -
  obtain r where r: "compute_hexbin [(- 30, 9), (0, 36)] (Some (- 30, 30)) (Some (0, 36)) None 1
                       np_mean (Some NegInf) = Inr r"
    and v: "agreggated_value r = [1, 0, 0, 0, 0]"
    using compute_hexbin_values [OF example_accum_two example_all_kept] by auto
  from counts_conserved [OF r example_grid] show ?thesis
    by (simp add: r v example_grid)
qed

theorem counts_conserved_counterexample:
  "(- 30 \<le> (0::real) \<and> (0::real) \<le> 30 \<and> (0::real) \<le> 36 \<and> (36::real) \<le> 36)
   \<and> map_sum id agreggated_value
        (compute_hexbin [(0, 36)] (Some (- 30, 30)) (Some (0, 36)) None 1 np_mean (Some NegInf))
       = Inr [0, 0, 0, 0, 0]"
proof -
  obtain r where r: "compute_hexbin [(0, 36)] (Some (- 30, 30)) (Some (0, 36)) None 1
                       np_mean (Some NegInf) = Inr r"
    and v: "agreggated_value r = [0, 0, 0, 0, 0]"
    using compute_hexbin_values [OF example_accum_edge example_all_kept] by auto
  then show ?thesis by simp
qed

section \<open>A tie between the two candidates\<close>

lemma count_lattice1_snoc:
  "count_lattice1 g (pts @ [p])
     = (if c1 g p then (count_lattice1 g pts)(cell1 p := count_lattice1 g pts (cell1 p) + 1)
        else count_lattice1 g pts)"
  by (simp add: count_lattice1_def add_at_def)

lemma count_lattice2_snoc:
  "count_lattice2 g (pts @ [p])
     = (if c2 g p then (count_lattice2 g pts)(cell2 p := count_lattice2 g pts (cell2 p) + 1)
        else count_lattice2 g pts)"
  by (simp add: count_lattice2_def add_at_def)

text \<open>
  Claim C2, as amended. The comparison \<^verbatim>\<open>d1 < d2\<close> is strict, so a point at equal
  distance from its two candidates is not selected for the offset lattice: it goes to
  its base-lattice candidate when that cell is inside the base lattice, and nowhere
  otherwise. This holds for the masks, for the count arrays (adding such a point leaves
  the offset array as it was) and for one round of the loop that collects colours.
\<close>

theorem tie_goes_to_base:
  assumes "d1 x y = d2 x y"
  shows "\<not> bdist x y
   \<and> \<not> c1 g (x, y)
   \<and> c2 g (x, y) = (0 \<le> \<lfloor>x\<rfloor> \<and> \<lfloor>x\<rfloor> < nx2 g \<and> 0 \<le> \<lfloor>y\<rfloor> \<and> \<lfloor>y\<rfloor> < ny2 g)
   \<and> count_lattice1 g (pts @ [(x, y)]) = count_lattice1 g pts
   \<and> count_lattice2 g (pts @ [(x, y)])
       = (if c2 g (x, y)
          then (count_lattice2 g pts)(cell2 (x, y) := count_lattice2 g pts (cell2 (x, y)) + 1)
          else count_lattice2 g pts)
   \<and> collect g color [(x, y)] i (L1, L2)
       = (if c2 g (x, y)
          then (if i < length color
                then Inr (L1, L2(cell2 (x, y) := L2 (cell2 (x, y)) @ [color ! i]))
                else Inl IndexError)
          else Inr (L1, L2))"
proof -
  have b: "\<not> bdist x y" using assms by (simp add: bdist_def)
  then have n1: "\<not> c1 g (x, y)" by (simp add: c1_def)
  have e2: "c2 g (x, y) = (0 \<le> \<lfloor>x\<rfloor> \<and> \<lfloor>x\<rfloor> < nx2 g \<and> 0 \<le> \<lfloor>y\<rfloor> \<and> \<lfloor>y\<rfloor> < ny2 g)"
    using b by (simp add: c2_def)
  have l1: "count_lattice1 g (pts @ [(x, y)]) = count_lattice1 g pts"
    using n1 by (simp add: count_lattice1_snoc)
  have co: "collect g color [(x, y)] i (L1, L2)
       = (if c2 g (x, y)
          then (if i < length color
                then Inr (L1, L2(cell2 (x, y) := L2 (cell2 (x, y)) @ [color ! i]))
                else Inl IndexError)
          else Inr (L1, L2))"
    using n1 by (simp add: collect_step del: collect.simps(2))
  from b n1 e2 l1 co show ?thesis
    by (simp only: count_lattice2_snoc simp_thms)
qed

theorem tie_goes_to_base_witness:
  "d1 (3 / 4) (1 / 4) = d2 (3 / 4) (1 / 4)
   \<and> \<not> c1 example_geom (3 / 4, 1 / 4)
   \<and> c2 example_geom (3 / 4, 1 / 4)
   \<and> collect example_geom [7] [(3 / 4, 1 / 4)] 0 (\<lambda>c. [], \<lambda>c. [])
       = Inr (\<lambda>c. [], (\<lambda>c. [])((0, 0) := [7]))"
proof -
  have t: "d1 (3 / 4) (1 / 4) = d2 (3 / 4) (1 / 4)"
    by (simp add: d1_def d2_def np_round_def Let_def power2_eq_square)
  from tie_goes_to_base [OF t, of example_geom "[]" "[7]" 0 "\<lambda>c. []" "\<lambda>c. []"] t
  show ?thesis by (simp add: cell2_def)
qed

theorem tie_goes_to_base_counterexample:
  "d1 (3 / 4) (1 / 4) = d2 (3 / 4) (1 / 4)
   \<and> cell1 (3 / 4, 1 / 4) = (1, 0)
   \<and> cell2 (3 / 4, 1 / 4) = (0, 0)
   \<and> cell1 (3 / 4, 1 / 4) \<in> set (indices (nx1 example_geom) (ny1 example_geom))
   \<and> count_lattice1 example_geom [(3 / 4, 1 / 4)] (1, 0) = 0
   \<and> count_lattice2 example_geom [(3 / 4, 1 / 4)] (0, 0) = 1"
  by (simp add: d1_def d2_def np_round_def Let_def power2_eq_square cell1_def cell2_def
        count_lattice1_def count_lattice2_def add_at_def c1_def c2_def bdist_def indices_eval)

section \<open>The two thresholds on the number of points\<close>

lemma count_list_cells:
  "count_list (map cell (filter sel pts)) c = length (filter (\<lambda>p. sel p \<and> cell p = c) pts)"
  by (induction pts) auto

lemma count_lattice1_cell:
  "count_lattice1 g pts c = real (length (filter (\<lambda>p. c1 g p \<and> cell1 p = c) pts))"
  by (simp add: count_lattice1_def add_at_count count_list_cells)

lemma count_lattice2_cell:
  "count_lattice2 g pts c = real (length (filter (\<lambda>p. c2 g p \<and> cell2 p = c) pts))"
  by (simp add: count_lattice2_def add_at_count count_list_cells)

lemma value_accum_Inr:
  assumes "value_accum g color pts agg_func min_count = Inr accum"
  shows "accum =
      map (\<lambda>c. aggregate_cell agg_func (case min_count of None \<Rightarrow> Fin 0 | Some m \<Rightarrow> m)
                 (cell_values (c1 g) cell1 pts color c)) (indices (nx1 g) (ny1 g))
    @ map (\<lambda>c. aggregate_cell agg_func (case min_count of None \<Rightarrow> Fin 0 | Some m \<Rightarrow> m)
                 (cell_values (c2 g) cell2 pts color c)) (indices (nx2 g) (ny2 g))"
proof -
  from assms obtain e1 e2 M1 M2
    where a: "np_alloc (nx1 g) (ny1 g) ([]::real list) = Inr e1"
             "np_alloc (nx2 g) (ny2 g) ([]::real list) = Inr e2"
      and c: "collect g color pts 0 (e1, e2) = Inr (M1, M2)"
      and r: "accum = map (aggregate_cell agg_func (case min_count of None \<Rightarrow> Fin 0 | Some m \<Rightarrow> m))
                        (ravel (nx1 g) (ny1 g) M1)
                    @ map (aggregate_cell agg_func (case min_count of None \<Rightarrow> Fin 0 | Some m \<Rightarrow> m))
                        (ravel (nx2 g) (ny2 g) M2)"
    by (auto simp: value_accum_def Let_def split: sum.splits)
  from a have e: "e1 = (\<lambda>c. [])" "e2 = (\<lambda>c. [])"
    by (auto simp: np_alloc_def split: if_splits)
  from collect_contents [OF c]
  have "M1 = cell_values (c1 g) cell1 pts color" "M2 = cell_values (c2 g) cell2 pts color"
    by (simp_all add: e fun_eq_iff)
  then show ?thesis by (simp add: r ravel_def)
qed

lemma example_counts_low:
  "count_accum example_geom [(1 / 4, 0)] (Some (Fin 1)) = Inr [Some 1, None, None, None, None]"
  by (simp add: count_accum_shape ravel_def indices_eval mask_below_def
        count_lattice1_cell count_lattice2_cell example_low_selected c1_def c2_def cell1_def
        bdist_def d1_def d2_def np_round_def Let_def power2_eq_square)

lemma example_values_low:
  "value_accum example_geom [7] [(1 / 4, 0)] np_mean (Some (Fin 1))
     = Inr [None, None, None, None, None]"
  by (simp add: value_accum_def np_alloc_def collect_step example_low_selected ravel_def
        indices_eval aggregate_cell_def cell1_def np_round_def Let_def del: collect.simps(2))

lemma mask_below_order:
  "mask_below min_count n =
     (case min_count of
        None \<Rightarrow> Some n
      | Some NegInf \<Rightarrow> Some n
      | Some (Fin m) \<Rightarrow> if n < m then None else Some n
      | Some PosInf \<Rightarrow> None
      | Some NaN \<Rightarrow> Some n)"
  by (simp add: mask_below_def split: option.splits npfloat.splits)

lemma aggregate_cell_order:
  "aggregate_cell agg_func (case min_count of None \<Rightarrow> Fin 0 | Some m \<Rightarrow> m) vals =
     (case min_count of
        None \<Rightarrow> if 0 < length vals then agg_func vals else None
      | Some NegInf \<Rightarrow> agg_func vals
      | Some (Fin m) \<Rightarrow> if m < real (length vals) then agg_func vals else None
      | Some PosInf \<Rightarrow> None
      | Some NaN \<Rightarrow> None)"
  by (simp add: aggregate_cell_def split: option.splits npfloat.splits)

lemma example_values_kept:
  "value_accum example_geom [7] [(1 / 4, 0)] np_mean None
     = Inr [Some 7, None, None, None, None]"
  by (simp add: value_accum_def np_alloc_def collect_step example_low_selected ravel_def
        indices_eval aggregate_cell_def cell1_def np_round_def np_mean_def Let_def
        del: collect.simps(2))

text \<open>
  Claim C3. The two thresholds differ and are exact; both are stated here in the order
  of the real numbers. Without a colour, the entry of a cell is its number of points
  \<open>n\<close>, and for a finite \<^verbatim>\<open>min_count = m\<close> it is NaN exactly when \<open>n < m\<close> (never
  for \<^verbatim>\<open>-inf\<close>, NaN or an unset \<^verbatim>\<open>min_count\<close>, always for \<^verbatim>\<open>+inf\<close>). With a
  colour, the entry of a cell is the aggregate of its collected values exactly when
  \<open>m < length vals\<close>, and NaN otherwise; an unset \<^verbatim>\<open>min_count\<close> counts as 0 there, so
  that a cell is kept exactly when it has a value. A cell with exactly \<^verbatim>\<open>min_count\<close>
  points is therefore kept in the first mode and dropped in the second.
\<close>

theorem min_count_thresholds:
  "(count_accum g pts min_count = Inr accum \<longrightarrow>
      accum =
        map (\<lambda>c. let n = real (length (filter (\<lambda>p. c1 g p \<and> cell1 p = c) pts))
                  in case min_count of
                       None \<Rightarrow> Some n
                     | Some NegInf \<Rightarrow> Some n
                     | Some (Fin m) \<Rightarrow> if n < m then None else Some n
                     | Some PosInf \<Rightarrow> None
                     | Some NaN \<Rightarrow> Some n)
            (indices (nx1 g) (ny1 g))
      @ map (\<lambda>c. let n = real (length (filter (\<lambda>p. c2 g p \<and> cell2 p = c) pts))
                  in case min_count of
                       None \<Rightarrow> Some n
                     | Some NegInf \<Rightarrow> Some n
                     | Some (Fin m) \<Rightarrow> if n < m then None else Some n
                     | Some PosInf \<Rightarrow> None
                     | Some NaN \<Rightarrow> Some n)
            (indices (nx2 g) (ny2 g)))
   \<and> (value_accum g color pts agg_func min_count = Inr accum \<longrightarrow>
      accum =
        map (\<lambda>c. let vals = cell_values (c1 g) cell1 pts color c
                  in case min_count of
                       None \<Rightarrow> if 0 < length vals then agg_func vals else None
                     | Some NegInf \<Rightarrow> agg_func vals
                     | Some (Fin m) \<Rightarrow> if m < real (length vals) then agg_func vals else None
                     | Some PosInf \<Rightarrow> None
                     | Some NaN \<Rightarrow> None)
            (indices (nx1 g) (ny1 g))
      @ map (\<lambda>c. let vals = cell_values (c2 g) cell2 pts color c
                  in case min_count of
                       None \<Rightarrow> if 0 < length vals then agg_func vals else None
                     | Some NegInf \<Rightarrow> agg_func vals
                     | Some (Fin m) \<Rightarrow> if m < real (length vals) then agg_func vals else None
                     | Some PosInf \<Rightarrow> None
                     | Some NaN \<Rightarrow> None)
            (indices (nx2 g) (ny2 g)))"
proof (intro conjI impI)
  assume "count_accum g pts min_count = Inr accum"
  from count_accum_Inr [OF this]
  have "accum = map (\<lambda>c. mask_below min_count (count_lattice1 g pts c)) (indices (nx1 g) (ny1 g))
              @ map (\<lambda>c. mask_below min_count (count_lattice2 g pts c)) (indices (nx2 g) (ny2 g))"
    by (simp add: ravel_def)
  then show "accum =
        map (\<lambda>c. let n = real (length (filter (\<lambda>p. c1 g p \<and> cell1 p = c) pts))
                  in case min_count of
                       None \<Rightarrow> Some n
                     | Some NegInf \<Rightarrow> Some n
                     | Some (Fin m) \<Rightarrow> if n < m then None else Some n
                     | Some PosInf \<Rightarrow> None
                     | Some NaN \<Rightarrow> Some n)
            (indices (nx1 g) (ny1 g))
      @ map (\<lambda>c. let n = real (length (filter (\<lambda>p. c2 g p \<and> cell2 p = c) pts))
                  in case min_count of
                       None \<Rightarrow> Some n
                     | Some NegInf \<Rightarrow> Some n
                     | Some (Fin m) \<Rightarrow> if n < m then None else Some n
                     | Some PosInf \<Rightarrow> None
                     | Some NaN \<Rightarrow> Some n)
            (indices (nx2 g) (ny2 g))"
    by (simp only: mask_below_order count_lattice1_cell count_lattice2_cell Let_def)
next
  assume "value_accum g color pts agg_func min_count = Inr accum"
  from value_accum_Inr [OF this]
  show "accum =
        map (\<lambda>c. let vals = cell_values (c1 g) cell1 pts color c
                  in case min_count of
                       None \<Rightarrow> if 0 < length vals then agg_func vals else None
                     | Some NegInf \<Rightarrow> agg_func vals
                     | Some (Fin m) \<Rightarrow> if m < real (length vals) then agg_func vals else None
                     | Some PosInf \<Rightarrow> None
                     | Some NaN \<Rightarrow> None)
            (indices (nx1 g) (ny1 g))
      @ map (\<lambda>c. let vals = cell_values (c2 g) cell2 pts color c
                  in case min_count of
                       None \<Rightarrow> if 0 < length vals then agg_func vals else None
                     | Some NegInf \<Rightarrow> agg_func vals
                     | Some (Fin m) \<Rightarrow> if m < real (length vals) then agg_func vals else None
                     | Some PosInf \<Rightarrow> None
                     | Some NaN \<Rightarrow> None)
            (indices (nx2 g) (ny2 g))"
    by (simp only: aggregate_cell_order Let_def)
qed

theorem min_count_thresholds_witness:
  "count_accum example_geom [(1 / 4, 0)] (Some (Fin 1)) = Inr [Some 1, None, None, None, None]
   \<and> [Some 1, None, None, None, None] =
        map (\<lambda>c. let n = real (length (filter (\<lambda>p. c1 example_geom p \<and> cell1 p = c) [(1 / 4, 0)]))
                  in if n < 1 then None else Some n)
            (indices 2 2)
      @ map (\<lambda>c. let n = real (length (filter (\<lambda>p. c2 example_geom p \<and> cell2 p = c) [(1 / 4, 0)]))
                  in if n < 1 then None else Some n)
            (indices 1 1)
   \<and> value_accum example_geom [7] [(1 / 4, 0)] np_mean (Some (Fin 1))
       = Inr [None, None, None, None, None]
   \<and> [None, None, None, None, None] =
        map (\<lambda>c. let vals = cell_values (c1 example_geom) cell1 [(1 / 4, 0)] [7] c
                  in if 1 < real (length vals) then np_mean vals else None)
            (indices 2 2)
      @ map (\<lambda>c. let vals = cell_values (c2 example_geom) cell2 [(1 / 4, 0)] [7] c
                  in if 1 < real (length vals) then np_mean vals else None)
            (indices 1 1)
   \<and> value_accum example_geom [7] [(1 / 4, 0)] np_mean None
       = Inr [Some 7, None, None, None, None]
   \<and> [Some 7, None, None, None, None] =
        map (\<lambda>c. let vals = cell_values (c1 example_geom) cell1 [(1 / 4, 0)] [7] c
                  in if 0 < length vals then np_mean vals else None)
            (indices 2 2)
      @ map (\<lambda>c. let vals = cell_values (c2 example_geom) cell2 [(1 / 4, 0)] [7] c
                  in if 0 < length vals then np_mean vals else None)
            (indices 1 1)"
  using min_count_thresholds [where g = example_geom and pts = "[(1 / 4, 0)]"
      and min_count = "Some (Fin 1)" and accum = "[Some 1, None, None, None, None]"]
    min_count_thresholds [where g = example_geom and pts = "[(1 / 4, 0)]" and color = "[7]"
      and agg_func = np_mean
      and min_count = "Some (Fin 1)" and accum = "[None, None, None, None, None]"]
    min_count_thresholds [where g = example_geom and pts = "[(1 / 4, 0)]" and color = "[7]"
      and agg_func = np_mean
      and min_count = None and accum = "[Some 7, None, None, None, None]"]
  by (simp add: example_counts_low example_values_low example_values_kept)

section \<open>When no bin survives\<close>

lemma example_accum_dropped:
  "hexbin_accum [(- 30, 9)] (Some (- 30, 30)) (Some (0, 36)) None 1 np_mean (Some (Fin 2))
     = Inr (example_geom, [None, None, None, None, None])"
  by (simp add: hexbin_accum_def example_grid count_accum_shape example_units_low
        ravel_def indices_eval mask_below_def count_lattice1_cell count_lattice2_cell
        example_low_selected)

lemma example_accum_colour_edge:
  "hexbin_accum [(0, 36)] (Some (- 30, 30)) (Some (0, 36)) (Some [7]) 1 np_mean None
     = Inr (example_geom, [None, None, None, None, None])"
  by (simp add: hexbin_accum_def example_grid value_accum_def np_alloc_def collect_step
        example_edge_unselected ravel_def indices_eval aggregate_cell_def
        del: collect.simps(2))

text \<open>
  Claim C5, as amended. When the accumulation succeeds and every cell of \<^verbatim>\<open>accum\<close>
  holds NaN, so that no bin survives, the call does not return an empty result: the
  list of centres is empty, \<^verbatim>\<open>sorted(list(set(np.diff(sorted(...)))))[1]\<close> has
  nothing to index, and the call raises \<^verbatim>\<open>IndexError\<close>.
\<close>

theorem no_bins_raises:
  assumes "hexbin_accum points lat_range lon_range color nx agg_func min_count = Inr (g, accum)"
    and "\<forall>v\<in>set accum. v = None"
  shows "compute_hexbin points lat_range lon_range color nx agg_func min_count = Inl IndexError"
  using assms by (simp add: compute_hexbin_def hexagons_no_bins)

theorem no_bins_raises_witness:
  "hexbin_accum [(- 30, 9)] (Some (- 30, 30)) (Some (0, 36)) None 1 np_mean (Some (Fin 2))
     = Inr (example_geom, [None, None, None, None, None])
   \<and> compute_hexbin [(- 30, 9)] (Some (- 30, 30)) (Some (0, 36)) None 1 np_mean (Some (Fin 2))
     = Inl IndexError"
  using no_bins_raises [OF example_accum_dropped] example_accum_dropped by simp

theorem no_bins_raises_counterexample:
  "hexbin_accum [(0, 36)] (Some (- 30, 30)) (Some (0, 36)) (Some [7]) 1 np_mean None
     = Inr (example_geom, [None, None, None, None, None])
   \<and> compute_hexbin [(0, 36)] (Some (- 30, 30)) (Some (0, 36)) (Some [7]) 1 np_mean None
     = Inl IndexError"
  by (simp add: example_accum_colour_edge compute_hexbin_def hexagons_no_bins)

section \<open>Inputs the specification wants refused\<close>

lemma hexbin_grid_error: "hexbin_grid points lat_range lon_range nx = Inl e \<Longrightarrow> e = ValueError"
  by (auto simp: hexbin_grid_def range_or_data_def Let_def
      split: sum.splits option.splits list.splits prod.splits)

lemma hexbin_grid_nx2: "hexbin_grid points lat_range lon_range nx = Inr g \<Longrightarrow> nx2 g = nx"
  by (auto simp: hexbin_grid_def Let_def split: sum.splits prod.splits)

lemma count_accum_negative: "nx2 g < 0 \<Longrightarrow> count_accum g pts min_count = Inl ValueError"
  by (simp add: count_accum_def np_alloc_def)

lemma value_accum_negative:
  "nx2 g < 0 \<Longrightarrow> value_accum g color pts agg_func min_count = Inl ValueError"
  by (simp add: value_accum_def np_alloc_def)

lemma negative_nx:
  assumes "nx < 0"
  shows "compute_hexbin points lat_range lon_range color nx agg_func min_count = Inl ValueError"
proof (cases "hexbin_grid points lat_range lon_range nx")
  case (Inl e)
  then show ?thesis
    using hexbin_grid_error [OF Inl] by (simp add: compute_hexbin_def hexbin_accum_def)
next
  case (Inr g)
  then have "nx2 g < 0" using assms hexbin_grid_nx2 by simp
  then show ?thesis
    using Inr
    by (cases color)
       (simp_all add: compute_hexbin_def hexbin_accum_def Let_def count_accum_negative
          value_accum_negative)
qed

lemma hex_scale_error: "hex_scale vs = Inl e \<Longrightarrow> e = IndexError"
  by (auto simp: hex_scale_def split: list.splits)

lemma np_diff_const:
  assumes "\<forall>v\<in>set vs. v = a"
  shows "set (np_diff vs) \<subseteq> {0}"
proof
  fix d assume "d \<in> set (np_diff vs)"
  then obtain u w where "(u, w) \<in> set (zip vs (tl vs))" "d = w - u"
    by (auto simp: np_diff_def)
  then have "u \<in> set vs" "w \<in> set (tl vs)"
    by (auto dest: set_zip_leftD set_zip_rightD)
  then have "u \<in> set vs" "w \<in> set vs"
    by (cases vs; simp)+
  with assms have "u = a" "w = a" by blast+
  with \<open>d = w - u\<close> show "d \<in> {0}" by simp
qed

lemma hex_scale_const:
  assumes "\<forall>v\<in>set vs. v = a"
  shows "hex_scale vs = Inl IndexError"
proof -
  have "\<forall>v\<in>set (sort vs). v = a" using assms by simp
  then have "set (np_diff (sort vs)) \<subseteq> {0}" by (rule np_diff_const)
  then have "card (set (np_diff (sort vs))) \<le> card {0::real}"
    by (intro card_mono) simp_all
  then have "length (sort (remdups (np_diff (sort vs)))) \<le> 1"
    by (simp add: length_remdups_card_conv)
  then show ?thesis
    by (cases "sort (remdups (np_diff (sort vs)))" rule: list.exhaust)
       (auto simp: hex_scale_def split: list.splits)
qed

lemma hex_size_flat:
  assumes "\<forall>c\<in>set cs. snd c = a"
  shows "hex_size cs = Inl IndexError"
proof -
  have "hex_scale (map snd cs) = Inl IndexError"
    by (rule hex_scale_const [where a = a]) (use assms in auto)
  then show ?thesis
    by (auto simp: hex_size_def split: sum.splits dest: hex_scale_error)
qed

lemma set_pick: "set (pick good vs) \<subseteq> set vs"
  by (auto simp: pick_def dest: set_zip_rightD)

lemma centers_flat:
  assumes "ny1 g = 1" "ny2 g = 0" "c \<in> set (centers g)"
  shows "snd c = ymin g"
proof -
  have "set (indices (nx2 g) 0) = {}" by (simp add: indices_set)
  then have e: "indices (nx2 g) (ny2 g) = []" using assms(2) by simp
  from assms(3) obtain i j where ij: "(i, j) \<in> set (indices (nx1 g) 1)"
      and c: "c = (of_int i * dx g + xmin g, of_int j * dy g + ymin g)"
    unfolding centers_def e assms(1) by auto
  from ij have "j = 0" by (simp add: indices_set)
  then show ?thesis by (simp add: c)
qed

lemma hexagons_flat:
  assumes "ny1 g = 1" "ny2 g = 0"
  shows "hexagons g accum = Inl IndexError"
proof -
  let ?cs = "pick (map (\<lambda>v. v \<noteq> None) accum) (centers g)"
  have "snd c = ymin g" if "c \<in> set ?cs" for c
  proof -
    from that have "c \<in> set (centers g)" using set_pick [of _ "centers g"] by (rule subsetD [rotated])
    then show ?thesis by (rule centers_flat [OF assms])
  qed
  then have "\<forall>c\<in>set ?cs. snd c = ymin g" by (rule ballI)
  then have "hex_size ?cs = Inl IndexError"
    by (rule hex_size_flat)
  then show ?thesis unfolding hexagons_def Let_def by (simp only: sum.case)
qed

lemma np_round_0 [simp]: "np_round 0 = 0"
  by (simp add: np_round_def)

lemma flat_grid_eq:
  "hexbin_grid points (Some (lat_a, lat_a)) (Some (lon_a, lon_b)) nx
     = Inr \<lparr>xmin = min (lon_a * pi / 180) (lon_b * pi / 180),
            ymin = artanh (sin (lat_a * pi / 180)),
            dx = (max (lon_a * pi / 180) (lon_b * pi / 180)
                  - min (lon_a * pi / 180) (lon_b * pi / 180)) / of_int nx,
            dy = (max (lon_a * pi / 180) (lon_b * pi / 180)
                  - min (lon_a * pi / 180) (lon_b * pi / 180)) / of_int nx * sqrt 3,
            nx1 = nx + 1, ny1 = 1, nx2 = nx, ny2 = 0\<rparr>"
  unfolding hexbin_grid_def range_or_data_def project_latlon_to_wgs84_def Let_def
  by (simp del: min_less_iff_conj max_less_iff_conj)

lemma length_indices: "0 \<le> n \<Longrightarrow> 0 \<le> m \<Longrightarrow> length (indices n m) = nat n * nat m"
  by (simp add: indices_def)

lemma collect_error: "collect g color pts i (L1, L2) = Inl e \<Longrightarrow> e = IndexError"
proof (induction pts arbitrary: i L1 L2)
  case Nil
  then show ?case by simp
next
  case (Cons p ps)
  from Cons.prems show ?case
    by (auto simp only: collect_step split: if_splits dest: Cons.IH)
qed

lemma value_accum_error:
  assumes "0 \<le> nx1 g" "0 \<le> ny1 g" "0 \<le> nx2 g" "0 \<le> ny2 g"
    and "value_accum g color pts agg_func min_count = Inl e"
  shows "e = IndexError"
  using assms
  by (auto simp: value_accum_def np_alloc_def Let_def split: sum.splits dest: collect_error)

lemma flat_lattice_raises:
  assumes "0 < nx"
  shows "compute_hexbin points (Some (lat_a, lat_a)) (Some (lon_a, lon_b)) color nx agg_func
           min_count = Inl IndexError"
proof -
  obtain g where g: "hexbin_grid points (Some (lat_a, lat_a)) (Some (lon_a, lon_b)) nx = Inr g"
      and d: "nx1 g = nx + 1" "ny1 g = 1" "nx2 g = nx" "ny2 g = 0"
    by (simp add: flat_grid_eq)
  have pos: "0 \<le> nx1 g" "0 \<le> ny1 g" "0 \<le> nx2 g" "0 \<le> ny2 g"
    using assms d by simp_all
  show ?thesis
  proof (cases "hexbin_accum points (Some (lat_a, lat_a)) (Some (lon_a, lon_b)) color nx agg_func
                  min_count")
    case (Inl e)
    then have "e = IndexError"
      using g pos
      by (cases color)
         (auto simp: hexbin_accum_def Let_def count_accum_shape
               split: sum.splits dest: value_accum_error)
    with Inl show ?thesis by (simp add: compute_hexbin_def)
  next
    case (Inr ga)
    then obtain accum where "ga = (g, accum)"
      using g by (cases ga) (auto simp: hexbin_accum_def Let_def split: sum.splits)
    with Inr show ?thesis
      by (simp add: compute_hexbin_def hexagons_flat d)
  qed
qed

lemma flat_lattice_built:
  assumes "0 < nx"
  shows "\<exists>g accum. hexbin_accum points (Some (lat_a, lat_a)) (Some (lon_a, lon_b)) None nx agg_func
                      min_count = Inr (g, accum)
           \<and> ny1 g = 1 \<and> ny2 g = 0 \<and> length accum = nat (nx + 1)"
proof -
  obtain g where g: "hexbin_grid points (Some (lat_a, lat_a)) (Some (lon_a, lon_b)) nx = Inr g"
      and d: "nx1 g = nx + 1" "ny1 g = 1" "nx2 g = nx" "ny2 g = 0"
    by (simp add: flat_grid_eq)
  have pos: "0 \<le> nx1 g" "0 \<le> ny1 g" "0 \<le> nx2 g" "0 \<le> ny2 g"
    using assms d by simp_all
  have "length (indices (nx + 1) 1) = nat (nx + 1)" "length (indices nx 0) = 0"
    using assms by (simp_all add: length_indices)
  then show ?thesis
    using g d by (simp add: hexbin_accum_def count_accum_shape [OF pos] ravel_def)
qed

lemma flat_example_grid:
  "hexbin_grid points (Some (0, 0)) (Some (0, 36)) 1
     = Inr \<lparr>xmin = 0, ymin = 0, dx = pi / 5, dy = pi / 5 * sqrt 3,
             nx1 = 2, ny1 = 1, nx2 = 1, ny2 = 0\<rparr>"
  by (simp add: flat_grid_eq)

lemma flat_example_units:
  "lattice_units \<lparr>xmin = 0, ymin = 0, dx = pi / 5, dy = pi / 5 * sqrt 3,
             nx1 = 2, ny1 = 1, nx2 = 1, ny2 = 0\<rparr> (0, 9) = (1 / 4, 0)"
  by (simp add: lattice_units_def project_0)

lemma quarter_offset: "bdist (1 / 4) 0" "cell1 (1 / 4, 0) = (0, 0)" "np_round (1 / 4) = 0"
  by (simp_all add: bdist_def d1_def d2_def cell1_def np_round_def Let_def power2_eq_square)

lemma flat_example_counts:
  "count_accum \<lparr>xmin = 0, ymin = 0, dx = pi / 5, dy = pi / 5 * sqrt 3,
             nx1 = 2, ny1 = 1, nx2 = 1, ny2 = 0\<rparr> [(1 / 4, 0)] None = Inr [Some 1, Some 0]"
  by (simp add: count_accum_shape ravel_def indices_eval mask_below_def
        count_lattice1_cell c1_def quarter_offset)

text \<open>
  Claim C6, as amended. The aggregator has no validation step and no error of its own.
  With a negative \<^verbatim>\<open>nx\<close> the call raises \<^verbatim>\<open>ValueError\<close>, at the latest when it
  allocates a lattice with a negative dimension. With a latitude range of zero extent at a latitude
  strictly between -89.999 and 89.999 degrees, a positive \<^verbatim>\<open>nx\<close> and a longitude
  range that is not of zero extent, \<^verbatim>\<open>ny\<close> is 0: without a colour the offset lattice
  of \<^verbatim>\<open>nx + 1\<close> by 1 cells is built and filled (the base lattice is empty), and in
  either mode the call fails with \<^verbatim>\<open>IndexError\<close>, at the latest when the scale of
  the hexagons is read off centres that all have the same height. The cases
  \<^verbatim>\<open>nx = 0\<close> and a longitude range of zero extent divide by zero, and a latitude
  at or next to a pole projects to infinity; \<^verbatim>\<open>numpy\<close> computes with infinities and
  NaN there, which are outside this model, so the statement leaves these cases out.
\<close>

theorem no_validation:
  "(nx < 0 \<longrightarrow>
      compute_hexbin points lat_range lon_range color nx agg_func min_count = Inl ValueError)
   \<and> (0 < nx \<and> lon_a \<noteq> lon_b \<and> - 89.999 < lat_a \<and> lat_a < 89.999 \<longrightarrow>
        (\<exists>g accum. hexbin_accum points (Some (lat_a, lat_a)) (Some (lon_a, lon_b)) None nx
                       agg_func min_count = Inr (g, accum)
                   \<and> ny1 g = 1 \<and> ny2 g = 0 \<and> length accum = nat (nx + 1))
        \<and> compute_hexbin points (Some (lat_a, lat_a)) (Some (lon_a, lon_b)) color nx agg_func
              min_count = Inl IndexError)"
proof (intro conjI impI)
  assume "nx < 0"
  then show "compute_hexbin points lat_range lon_range color nx agg_func min_count
               = Inl ValueError"
    by (rule negative_nx)
next
  assume "0 < nx \<and> lon_a \<noteq> lon_b \<and> - 89.999 < lat_a \<and> lat_a < 89.999"
  then have "0 < nx" ..
  then show "\<exists>g accum. hexbin_accum points (Some (lat_a, lat_a)) (Some (lon_a, lon_b)) None nx
                       agg_func min_count = Inr (g, accum)
                   \<and> ny1 g = 1 \<and> ny2 g = 0 \<and> length accum = nat (nx + 1)"
    by (rule flat_lattice_built)
next
  assume "0 < nx \<and> lon_a \<noteq> lon_b \<and> - 89.999 < lat_a \<and> lat_a < 89.999"
  then have "0 < nx" ..
  then show "compute_hexbin points (Some (lat_a, lat_a)) (Some (lon_a, lon_b)) color nx agg_func
              min_count = Inl IndexError"
    by (rule flat_lattice_raises)
qed

theorem no_validation_witness:
  "(- 1 :: int) < 0
   \<and> compute_hexbin [(0, 9)] (Some (0, 0)) (Some (0, 36)) None (- 1) np_mean None = Inl ValueError
   \<and> (0::int) < 2 \<and> (0::real) \<noteq> 36 \<and> - 89.999 < (0::real) \<and> (0::real) < 89.999
   \<and> compute_hexbin [(0, 9)] (Some (0, 0)) (Some (0, 36)) (Some [7]) 2 np_mean None
       = Inl IndexError"
  using no_validation [of "- 1" "[(0, 9)]" "Some (0, 0)" "Some (0, 36)" None np_mean None 0 0 0]
    no_validation [of 2 "[(0, 9)]" "Some (0, 0)" "Some (0, 36)" "Some [7]" np_mean None 0 36 0]
  by simp

theorem no_validation_counterexample:
  "hexbin_accum [(0, 9)] (Some (0, 0)) (Some (0, 36)) None 1 np_mean None
     = Inr (\<lparr>xmin = 0, ymin = 0, dx = pi / 5, dy = pi / 5 * sqrt 3,
             nx1 = 2, ny1 = 1, nx2 = 1, ny2 = 0\<rparr>, [Some 1, Some 0])
   \<and> compute_hexbin [(0, 9)] (Some (0, 0)) (Some (0, 36)) None 1 np_mean None = Inl IndexError"
proof -
  have "hexbin_accum [(0, 9)] (Some (0, 0)) (Some (0, 36)) None 1 np_mean None
     = Inr (\<lparr>xmin = 0, ymin = 0, dx = pi / 5, dy = pi / 5 * sqrt 3,
             nx1 = 2, ny1 = 1, nx2 = 1, ny2 = 0\<rparr>, [Some 1, Some 0])"
    unfolding hexbin_accum_def flat_example_grid
    by (simp only: sum.case Let_def list.map flat_example_units option.case flat_example_counts)
  then show ?thesis
    by (simp add: compute_hexbin_def hexagons_flat)
qed

section \<open>The scale of the hexagons\<close>

lemma np_diff_Cons2: "np_diff (a # b # vs) = (b - a) # np_diff (b # vs)"
  by (simp add: np_diff_def)

lemma np_diff_sorted_nonneg: "sorted vs \<Longrightarrow> \<forall>d\<in>set (np_diff vs). 0 \<le> d"
proof (induction vs rule: induct_list012)
  case 1
  then show ?case by (simp add: np_diff_def)
next
  case (2 a)
  then show ?case by (simp add: np_diff_def)
next
  case (3 a b vs)
  then show ?case by (simp add: np_diff_Cons2)
qed

lemma second_of_sorted_set:
  assumes "sort (remdups ds) = a # b # rest"
  shows "a = Min (set ds)" and "b \<in> set ds" and "a < b" and "\<forall>d\<in>set ds. d = a \<or> b \<le> d"
proof -
  have s: "sorted (a # b # rest)" and d: "distinct (a # b # rest)"
    and e: "set (a # b # rest) = set ds"
    using assms [symmetric] by simp_all
  show "b \<in> set ds" using e by auto
  from s d show "a < b" by auto
  show all: "\<forall>d\<in>set ds. d = a \<or> b \<le> d"
    using s e by auto
  have "a \<in> set ds" using e by auto
  moreover have "\<forall>d\<in>set ds. a \<le> d" using s e by auto
  ultimately show "a = Min (set ds)"
    by (intro Min_eqI [symmetric]) auto
qed

lemma hex_scale_Inr:
  "hex_scale vs = Inr v \<longleftrightarrow> (\<exists>a rest. sort (remdups (np_diff (sort vs))) = a # v # rest)"
  by (auto simp: hex_scale_def split: list.splits)

lemma second_missing:
  "(case ds of a # b # rest \<Rightarrow> Inr b | _ \<Rightarrow> Inl IndexError) = Inl IndexError
     \<longleftrightarrow> length ds < 2"
  by (induction ds rule: induct_list012) simp_all

lemma hex_scale_Inl:
  "hex_scale vs = Inl IndexError \<longleftrightarrow> card (set (np_diff (sort vs))) < 2"
  unfolding hex_scale_def second_missing by (simp add: length_remdups_card_conv)

lemma hex_size_Inr:
  "hex_size cs = Inr (w, h) \<Longrightarrow>
     \<exists>dxh dyh. hex_scale (map fst cs) = Inr dxh \<and> hex_scale (map snd cs) = Inr dyh
        \<and> w = dxh * 2 \<and> h = 2 / 3 * dyh / (0.5 / cos (pi / 6))"
  by (auto simp: hex_size_def split: sum.splits)

text \<open>
  Claim C4, as amended. The scale read off a list of coordinates is the second-smallest
  of the distinct consecutive differences of the sorted list, zero included: it is one
  of the differences, larger than the smallest, and no other difference lies between.
  The differences are not negative, so when two centres share the coordinate the
  smallest difference is zero and the scale is the smallest positive difference, not
  the second. With fewer than two distinct differences there is no scale and
  \<^verbatim>\<open>IndexError\<close> is raised. The width of a hexagon is twice the scale of the
  x-coordinates, and its height is \<open>2/3\<close> of the scale of the y-coordinates divided by
  \<open>0.5 / cos (\<pi>/6)\<close>.
\<close>

theorem scale_is_second_distinct_difference:
  "(hex_scale vs = Inr v \<longrightarrow>
      v \<in> set (np_diff (sort vs))
      \<and> Min (set (np_diff (sort vs))) < v
      \<and> 0 \<le> Min (set (np_diff (sort vs)))
      \<and> (\<forall>d\<in>set (np_diff (sort vs)). d = Min (set (np_diff (sort vs))) \<or> v \<le> d))
   \<and> (hex_scale vs = Inr v \<and> 0 \<in> set (np_diff (sort vs)) \<longrightarrow>
        0 < v \<and> (\<forall>d\<in>set (np_diff (sort vs)). 0 < d \<longrightarrow> v \<le> d))
   \<and> (hex_scale vs = Inl IndexError \<longleftrightarrow> card (set (np_diff (sort vs))) < 2)
   \<and> (hex_size cs = Inr (w, h) \<longrightarrow>
        (\<exists>dxh dyh. hex_scale (map fst cs) = Inr dxh \<and> hex_scale (map snd cs) = Inr dyh
           \<and> w = dxh * 2 \<and> h = 2 / 3 * dyh / (0.5 / cos (pi / 6))))"
proof -
  let ?D = "set (np_diff (sort vs))"
  have nonneg: "\<forall>d\<in>?D. 0 \<le> d" by (rule np_diff_sorted_nonneg) simp
  have first: "v \<in> ?D \<and> Min ?D < v \<and> 0 \<le> Min ?D \<and> (\<forall>d\<in>?D. d = Min ?D \<or> v \<le> d)"
    if "hex_scale vs = Inr v"
  proof -
    from that obtain a rest where "sort (remdups (np_diff (sort vs))) = a # v # rest"
      by (auto simp: hex_scale_Inr)
    note sec = second_of_sorted_set [OF this]
    have "Min ?D \<in> ?D" using sec(2) by (intro Min_in) auto
    with nonneg have "0 \<le> Min ?D" by blast
    with sec show ?thesis by auto
  qed
  have second: "0 < v \<and> (\<forall>d\<in>?D. 0 < d \<longrightarrow> v \<le> d)"
    if "hex_scale vs = Inr v \<and> 0 \<in> ?D"
  proof -
    from that first have f: "Min ?D < v" "0 \<le> Min ?D" "\<forall>d\<in>?D. d = Min ?D \<or> v \<le> d"
      by auto
    from that have "Min ?D \<le> 0" by (intro Min_le) auto
    with f(2) have "Min ?D = 0" by simp
    with f show ?thesis by auto
  qed
  from first second hex_scale_Inl hex_size_Inr show ?thesis by blast
qed

theorem scale_is_second_distinct_difference_witness:
  "hex_scale [0, 0, 1 / 2, 2] = Inr (1 / 2)
   \<and> 0 \<in> set (np_diff (sort [0, 0, 1 / 2, 2 :: real]))
   \<and> (0::real) < 1 / 2
   \<and> hex_size [(0, 0), (0, 3), (1 / 2, 3 / 2), (2, 0)] = Inr (1, 2 / 3 * (3 / 2) / (0.5 / cos (pi / 6)))"
  using scale_is_second_distinct_difference
    [of "[0, 0, 1 / 2, 2]" "1 / 2" "[(0, 0), (0, 3), (1 / 2, 3 / 2), (2, 0)]" 1
        "2 / 3 * (3 / 2) / (0.5 / cos (pi / 6))"]
  by (simp add: hex_scale_def hex_size_def np_diff_def)

theorem scale_is_second_distinct_difference_counterexample:
  "hex_scale [0, 0, 1 / 2, 2] = Inr (1 / 2) \<and> spec_true_spacing [0, 0, 1 / 2, 2] = Inr (3 / 2)"
  by (simp add: hex_scale_def spec_true_spacing_def np_diff_def)

section \<open>The projection and its inverse over the real numbers\<close>

lemma tan_quarter_plus_half:
  assumes "- (pi / 2) < p" "p < pi / 2"
  shows "tan (pi / 4 + p / 2) = sqrt ((1 + sin p) / (1 - sin p))"
proof -
  define t where "t = pi / 4 + p / 2"
  have t: "0 < t" "t < pi / 2" using assms by (simp_all add: t_def)
  have p: "p = 2 * t - pi / 2" by (simp add: t_def)
  have c: "0 < cos t" using t by (simp add: cos_gt_zero)
  have s: "0 < sin t" using t by (simp add: sin_gt_zero2)
  have sp: "sin p = - cos (2 * t)"
    unfolding p by (simp add: sin_diff)
  have one: "(sin t)\<^sup>2 + (cos t)\<^sup>2 = 1" by simp
  have n: "1 + sin p = 2 * (sin t)\<^sup>2"
    unfolding sp cos_double using one by (simp add: algebra_simps)
  have d: "1 - sin p = 2 * (cos t)\<^sup>2"
    unfolding sp cos_double using one by (simp add: algebra_simps)
  have "(1 + sin p) / (1 - sin p) = (tan t)\<^sup>2"
    unfolding n d tan_def using c by (simp add: power_divide)
  moreover have "0 < tan t" using s c by (simp add: tan_def)
  ultimately show ?thesis unfolding t_def [symmetric] by simp
qed

lemma exp_artanh:
  assumes "- 1 < s" "s < (1::real)"
  shows "exp (artanh s) = sqrt ((1 + s) / (1 - s))"
proof -
  have pos: "0 < (1 + s) / (1 - s)" using assms by simp
  have "artanh s = ln (sqrt ((1 + s) / (1 - s)))"
    using pos by (simp add: artanh_def ln_sqrt)
  then show ?thesis using pos by simp
qed

lemma sin_strictly_inside:
  assumes "- (pi / 2) < p" "p < pi / 2"
  shows "- 1 < sin p" and "sin p < 1"
proof -
  have "sin (- (pi / 2)) < sin p"
    using assms by (intro sin_monotone_2pi) simp_all
  then show "- 1 < sin p" by simp
  have "sin p < sin (pi / 2)"
    using assms by (intro sin_monotone_2pi) simp_all
  then show "sin p < 1" by simp
qed

lemma angle_recovered:
  assumes "- (pi / 2) < p" "p < pi / 2"
  shows "2 * arctan (exp (artanh (sin p))) - pi / 2 = p"
proof -
  have "exp (artanh (sin p)) = tan (pi / 4 + p / 2)"
    using assms sin_strictly_inside [OF assms]
    by (simp add: exp_artanh tan_quarter_plus_half)
  moreover have "arctan (tan (pi / 4 + p / 2)) = pi / 4 + p / 2"
    using assms by (intro arctan_tan) simp_all
  ultimately show ?thesis by simp
qed

text \<open>
  The two formulas, read over the real numbers, are inverse to each other for a latitude
  strictly between -90 and 90 degrees. This is a fact about the formulas and not about
  their evaluation in 64-bit floats: there \<^verbatim>\<open>np.sin\<close>, \<^verbatim>\<open>np.arctanh\<close>,
  \<^verbatim>\<open>np.exp\<close> and \<^verbatim>\<open>np.arctan\<close> round, the round trip is only approximate, and
  next to the poles the sine rounds to 1 and the projection is infinite. How far the
  computed round trip is from its input is a property of that rounding, which this
  development does not model.
\<close>

lemma real_projection_inverse:
  assumes "- 90 < lat" and "lat < 90"
  shows "(case project_latlon_to_wgs84 lat lon of (x, y) \<Rightarrow> project_wgs84_to_latlon x y)
           = (lat, lon)"
proof -
  have "pi * (- 90) < pi * lat" "pi * lat < pi * 90"
    using assms by (simp_all only: mult_less_cancel_left_pos [OF pi_gt_zero])
  then have "- (pi / 2) < lat * pi / 180" "lat * pi / 180 < pi / 2"
    by (simp_all add: field_simps)
  then have "2 * arctan (exp (artanh (sin (lat * pi / 180)))) - pi / 2 = lat * pi / 180"
    by (rule angle_recovered)
  then show ?thesis
    by (simp add: project_latlon_to_wgs84_def project_wgs84_to_latlon_def)
qed

section \<open>The zoom level is the smallest of two estimates and the cap\<close>


section \<open>Smaller maps, smaller zoom, up to the cap\<close>

lemma zoom_scaled:
  assumes "0 < k" "0 < px" "0 < w" "0 < f"
  shows "zoom (k * px) w f = zoom px w f + 0.95 * ln k / ln 2"
proof -
  have "k * px / w / f = k * (px / w / f)" by simp
  moreover have "0 < px / w / f" using assms by simp
  ultimately have "ln (k * px / w / f) = ln k + ln (px / w / f)"
    using assms(1) by (simp only: ln_mult_pos)
  then show ?thesis by (simp add: zoom_def algebra_simps add_divide_distrib)
qed

lemma zoom_shrinks_strictly:
  assumes "0 < k" "k < 1" "0 < px" "0 < w" "0 < f"
  shows "zoom (k * px) w f < zoom px w f"
proof -
  have "ln k < 0" using assms by simp
  moreover have "0 < ln (2::real)" by simp
  ultimately have "0.95 * ln k / ln 2 < 0"
    by (simp add: divide_neg_pos)
  then show ?thesis using zoom_scaled [of k px w f] assms by simp
qed

lemma getBoundsZoomLevel_eq:
  "getBoundsZoomLevel lon_min lon_max lat_min lat_max dims
     = min (min (zoom (height dims) 512 (latFraction lat_min lat_max))
                (zoom (width dims) 512 (lngFraction lon_min lon_max))) 18"
  by (simp add: getBoundsZoomLevel_def)

lemma zoom_at_least_18:
  assumes "0 < f" and "f * 2 ^ 19 * w \<le> px" and "0 < w"
  shows "18 \<le> zoom px w f"
proof -
  have ge: "2 ^ 19 \<le> px / w / f"
    using assms by (simp add: pos_le_divide_eq mult.commute mult.left_commute)
  have p19: "(0::real) < 2 ^ 19" by simp
  from p19 ge have pos: "0 < px / w / f" by (rule less_le_trans)
  have l: "ln (2 ^ 19 :: real) \<le> ln (px / w / f)"
    by (rule iffD2 [OF ln_le_cancel_iff [OF p19 pos] ge])
  have "ln ((2::real) ^ 19) = real 19 * ln 2" by (rule ln_realpow)
  with l have "19 * ln 2 \<le> ln (px / w / f)"
    by (simp only: of_nat_numeral)
  moreover have "0 < ln (2::real)" by simp
  ultimately have "19 \<le> ln (px / w / f) / ln 2"
    by (simp add: pos_le_divide_eq)
  then show ?thesis by (simp add: zoom_def)
qed

lemma latRad_0: "latRad 0 = 0"
  by (simp add: latRad_def)

lemma latRad_small:
  assumes "0 < t" "t \<le> 1 / 4" "t = lat * pi / 180"
  shows "0 < latRad lat" and "latRad lat \<le> t"
proof -
  define s where "s = sin t"
  have t_pi: "t < pi" using assms pi_ge_two by linarith
  have s: "0 < s" "s \<le> t"
    using assms t_pi by (simp_all add: s_def sin_gt_zero sin_x_le_x)
  then have s2: "s \<le> 1 / 4" using assms by linarith
  define u where "u = 2 * s / (1 - s)"
  have u: "0 < u" "u \<le> 4 * s"
  proof -
    show "0 < u" using s s2 by (simp add: u_def)
    have "2 * s \<le> 4 * s * (1 - s)" using s s2 by (simp add: algebra_simps) 
    then show "u \<le> 4 * s" using s2 by (simp add: u_def pos_divide_le_eq)
  qed
  have q: "(1 + s) / (1 - s) = 1 + u"
    using s2 by (simp add: u_def field_simps)
  have "0 < ln (1 + u)" using u by simp
  moreover have "ln (1 + u) \<le> u" using u by (intro ln_add_one_self_le_self) simp
  ultimately have r: "0 < ln ((1 + s) / (1 - s)) / 2" "ln ((1 + s) / (1 - s)) / 2 \<le> 2 * t"
    using u s unfolding q by simp_all
  then have "ln ((1 + s) / (1 - s)) / 2 \<le> pi" using assms pi_ge_two by linarith
  then have "latRad lat = ln ((1 + s) / (1 - s)) / 2 / 2"
    using r(1) unfolding latRad_def s_def assms(3) Let_def by (simp add: min_def max_def)
  with r show "0 < latRad lat" and "latRad lat \<le> t" by simp_all
qed

lemma tiny_box_fractions:
  "0 < latFraction 0 (1 / 10000)" "latFraction 0 (1 / 10000) \<le> 1 / 1800000"
  "lngFraction 0 (1 / 10000) = 1 / 3600000"
proof -
  define t where "t = 1 / 10000 * pi / 180"
  have t: "0 < t" "t \<le> 1 / 4"
    using pi_less_4 by (simp_all add: t_def)
  note r = latRad_small [OF t t_def]
  have f: "latFraction 0 (1 / 10000) = latRad (1 / 10000) / pi"
    by (simp add: latFraction_def latRad_0)
  show "0 < latFraction 0 (1 / 10000)" using r(1) by (simp add: f)
  have "latRad (1 / 10000) / pi \<le> t / pi"
    using r(2) by (simp add: divide_right_mono)
  also have "t / pi = 1 / 1800000" by (simp add: t_def)
  finally show "latFraction 0 (1 / 10000) \<le> 1 / 1800000" by (simp only: f)
  show "lngFraction 0 (1 / 10000) = 1 / 3600000" by (simp add: lngFraction_def)
qed

lemma tiny_box_capped:
  assumes "225 \<le> px"
  shows "18 \<le> zoom px 512 (latFraction 0 (1 / 10000))"
    and "18 \<le> zoom px 512 (lngFraction 0 (1 / 10000))"
proof -
  have "latFraction 0 (1 / 10000) * 2 ^ 19 * 512 \<le> 1 / 1800000 * 2 ^ 19 * 512"
    using tiny_box_fractions(2) by (simp only: mult_le_cancel_right_pos zero_less_numeral zero_less_power)
  also have "\<dots> \<le> 225" by simp
  finally have "latFraction 0 (1 / 10000) * 2 ^ 19 * 512 \<le> px" using assms by linarith
  then show "18 \<le> zoom px 512 (latFraction 0 (1 / 10000))"
    using tiny_box_fractions(1) by (intro zoom_at_least_18) simp_all
  have "(1 / 3600000 :: real) * 2 ^ 19 * 512 \<le> 225" by simp
  then have "lngFraction 0 (1 / 10000) * 2 ^ 19 * 512 \<le> px"
    using assms unfolding tiny_box_fractions(3) by simp
  then show "18 \<le> zoom px 512 (lngFraction 0 (1 / 10000))"
    by (intro zoom_at_least_18) (simp_all add: tiny_box_fractions(3))
qed

lemma latRad_30: "latRad 30 = ln 3 / 4"
proof -
  have "30 * pi / 180 = pi / 6" by simp
  then have s: "sin (30 * pi / 180) = 1 / 2" by (simp only: sin_30)
  have "ln 3 / 2 \<le> pi" "- pi \<le> ln 3 / 2"
    using ln3_bounds pi_ge_two by linarith+
  then show ?thesis
    unfolding latRad_def s Let_def by (simp add: min_def max_def)
qed

text \<open>
  Claim C9, as amended. For a bounding box with positive latitude and longitude
  fractions and positive pixel dimensions, shrinking both dimensions by the same factor
  \<open>k\<close> between 0 and 1 never raises the zoom, and lowers it strictly whenever the
  zoom at the smaller dimensions is below the cap 18. When it is not, the zoom is 18
  at both sizes: the cap hides the decrease.
\<close>

theorem zoom_shrinks_below_cap:
  assumes "0 < height dims" and "0 < width dims" and "0 < k" and "k < 1"
    and "0 < latFraction lat_min lat_max" and "0 < lngFraction lon_min lon_max"
  shows "getBoundsZoomLevel lon_min lon_max lat_min lat_max
           \<lparr>height = k * height dims, width = k * width dims\<rparr>
         \<le> getBoundsZoomLevel lon_min lon_max lat_min lat_max dims
     \<and> (getBoundsZoomLevel lon_min lon_max lat_min lat_max
           \<lparr>height = k * height dims, width = k * width dims\<rparr> < 18
        \<longrightarrow> getBoundsZoomLevel lon_min lon_max lat_min lat_max
           \<lparr>height = k * height dims, width = k * width dims\<rparr>
         < getBoundsZoomLevel lon_min lon_max lat_min lat_max dims)
     \<and> (\<not> getBoundsZoomLevel lon_min lon_max lat_min lat_max
           \<lparr>height = k * height dims, width = k * width dims\<rparr> < 18
        \<longrightarrow> getBoundsZoomLevel lon_min lon_max lat_min lat_max
              \<lparr>height = k * height dims, width = k * width dims\<rparr> = 18
          \<and> getBoundsZoomLevel lon_min lon_max lat_min lat_max dims = 18)"
proof -
  have "zoom (k * height dims) 512 (latFraction lat_min lat_max)
          < zoom (height dims) 512 (latFraction lat_min lat_max)"
    using assms by (intro zoom_shrinks_strictly) simp_all
  moreover have "zoom (k * width dims) 512 (lngFraction lon_min lon_max)
          < zoom (width dims) 512 (lngFraction lon_min lon_max)"
    using assms by (intro zoom_shrinks_strictly) simp_all
  ultimately show ?thesis
    unfolding getBoundsZoomLevel_eq by (simp add: min_def)
qed

theorem zoom_shrinks_below_cap_witness:
  "(0::real) < 450 \<and> (0::real) < 1 / 2 \<and> (1 / 2 :: real) < 1
   \<and> 0 < latFraction 0 30 \<and> 0 < lngFraction 0 180
   \<and> getBoundsZoomLevel 0 180 0 30 \<lparr>height = 225, width = 225\<rparr> < 18
   \<and> getBoundsZoomLevel 0 180 0 30 \<lparr>height = 225, width = 225\<rparr>
       < getBoundsZoomLevel 0 180 0 30 \<lparr>height = 450, width = 450\<rparr>"
proof -
  have lat: "0 < latFraction 0 30"
    by (simp add: latFraction_def latRad_30 latRad_0)
  have lng: "lngFraction 0 180 = 1 / 2" by (simp add: lngFraction_def)
  have "ln (225 / 256 :: real) < 0" by simp
  then have "zoom 225 512 (1 / 2) < 0"
    by (simp add: zoom_def divide_neg_pos)
  then have small: "getBoundsZoomLevel 0 180 0 30 \<lparr>height = 225, width = 225\<rparr> < 18"
    by (simp add: getBoundsZoomLevel_eq lng min_def)
  from zoom_shrinks_below_cap
         [of "\<lparr>height = 450, width = 450\<rparr>" "1 / 2" 0 30 0 180] lat lng small
  show ?thesis by simp
qed

theorem zoom_shrinks_below_cap_counterexample:
  "getBoundsZoomLevel 0 (1 / 10000) 0 (1 / 10000) \<lparr>height = 225, width = 225\<rparr> = 18
   \<and> getBoundsZoomLevel 0 (1 / 10000) 0 (1 / 10000) \<lparr>height = 450, width = 450\<rparr> = 18"
  using tiny_box_capped [of 225] tiny_box_capped [of 450]
  by (simp add: getBoundsZoomLevel_eq)

end
